theory Spec2Isabelle
  imports Main "HOL-Library.Word"
begin

unbundle bit_operations_syntax

section \<open>Syntax nodes and symbols of the front end\<close>

text \<open>
  The code generator reads only a few members of the front end's syntax nodes:
  \<^verbatim>\<open>kind\<close>, \<^verbatim>\<open>getFullStart()\<close>, \<^verbatim>\<open>getFullWidth()\<close>, \<^verbatim>\<open>getSourceFile()\<close> of every
  node, \<^verbatim>\<open>text\<close> of an identifier, \<^verbatim>\<open>name\<close> of a property access, \<^verbatim>\<open>operatorToken\<close>
  of a binary expression and \<^verbatim>\<open>operator\<close> of a unary expression. Each interface is a
  record extending \<open>Node\<close>; \<open>Node.truncate\<close> is the upcast to the base interface.
\<close>

type_synonym SourceFile = string

type_synonym SyntaxKind = nat

record Node =
  kind :: SyntaxKind
  fullStart :: nat
  fullWidth :: nat
  sourceFile :: SourceFile

record Identifier = Node +
  identifierText :: string

record PropertyAccessExpression = Node +
  name :: Identifier

record BinaryExpression = Node +
  operatorToken :: Node

record UnaryExpression = Node +
  operator :: SyntaxKind

text \<open>
  \<^verbatim>\<open>getDeclarations()\<close> answers the symbol's \<^verbatim>\<open>declarations\<close> member: an array, or
  \<^verbatim>\<open>undefined\<close> (\<open>None\<close>) for a symbol that was made without declarations.
\<close>

record Symbol =
  symbolName :: string
  declarations :: "Node list option"

section \<open>code-generation-diagnostic.ts\<close>

subsection \<open>The diagnostic and its failures\<close>

record CodeGenerationDiagnostic =
  node :: Node
  code :: int
  message :: string

text \<open>
  What a call can raise instead of returning: a failed \<^verbatim>\<open>assert\<close> (with its message),
  the TypeError of reading a property of \<^verbatim>\<open>undefined\<close>, a plain \<^verbatim>\<open>new Error(msg)\<close>, and
  a thrown \<open>CodeGenerationDiagnostic\<close>. A result \<open>Inl f\<close> is a raise of \<open>f\<close>,
  \<open>Inr v\<close> is the return of \<open>v\<close>.
\<close>

datatype failure =
  is_AssertionError: AssertionError string
| is_TypeError: TypeError
| is_Error: Error string
| is_Thrown: Thrown CodeGenerationDiagnostic

subsection \<open>Message formatting\<close>

text \<open>
  \<^verbatim>\<open>util.format(f, ...args)\<close> of the Node.js standard library, for string arguments and
  the placeholders \<^verbatim>\<open>%s\<close> and \<^verbatim>\<open>%%\<close> (no template of the catalogue below has another
  one, and every factory passes strings). The scan goes left to right: \<^verbatim>\<open>%s\<close> takes
  the next argument, and stays as it is once the arguments are used up; \<^verbatim>\<open>%%\<close> becomes
  one percent sign; arguments left over at the end are appended, each after a space.
  With no argument at all the template is returned untouched.
\<close>

fun formatWithArgs :: "string \<Rightarrow> string list \<Rightarrow> string" where
  "formatWithArgs [] args = concat (map (\<lambda>x. CHR '' '' # x) args)"
| "formatWithArgs [c] args = c # formatWithArgs [] args"
| "formatWithArgs (c # d # f) args =
     (if c = CHR ''%'' \<and> d = CHR ''s'' then
        (case args of
           [] \<Rightarrow> c # formatWithArgs (d # f) []
         | a # rest \<Rightarrow> a @ formatWithArgs f rest)
      else if c = CHR ''%'' \<and> d = CHR ''%'' then CHR ''%'' # formatWithArgs f args
      else c # formatWithArgs (d # f) args)"

definition format :: "string \<Rightarrow> string list \<Rightarrow> string" where
  "format f args = (if args = [] then f else formatWithArgs f args)"

subsection \<open>Constructor and conversion to the host format\<close>

text \<open>
  The constructor's three assertions, in the order of the source. An absent node
  (\<^verbatim>\<open>undefined\<close>) is \<open>None\<close>; the number \<^verbatim>\<open>0\<close> and the empty string are the falsy values
  of \<open>code\<close> and \<open>message\<close>.
\<close>

definition new_CodeGenerationDiagnostic ::
  "Node option \<Rightarrow> int \<Rightarrow> string \<Rightarrow> failure + CodeGenerationDiagnostic" where
  "new_CodeGenerationDiagnostic n c m =
     (case n of
        None \<Rightarrow> Inl (AssertionError ''Node is not defined'')
      | Some nd \<Rightarrow>
          if c = 0 then Inl (AssertionError ''code is not defined'')
          else if m = [] then Inl (AssertionError ''message is not defined'')
          else Inr \<lparr>node = nd, code = c, message = m\<rparr>)"

datatype DiagnosticCategory = CategoryWarning | CategoryError | CategoryMessage

record Diagnostic =
  diag_code :: int
  diag_messageText :: string
  diag_start :: nat
  diag_length :: nat
  diag_category :: DiagnosticCategory
  diag_file :: SourceFile

definition toDiagnostic :: "CodeGenerationDiagnostic \<Rightarrow> Diagnostic" where
  "toDiagnostic this =
     \<lparr>diag_code = code this,
      diag_messageText = message this,
      diag_start = fullStart (node this),
      diag_length = fullWidth (node this),
      diag_category = CategoryError,
      diag_file = sourceFile (node this)\<rparr>"

subsection \<open>The catalogue of messages and codes\<close>

record DiagnosticTemplate =
  template_message :: string
  template_code :: int

definition BuiltInMethodNotSupported :: DiagnosticTemplate where
  "BuiltInMethodNotSupported =
     \<lparr>template_message = ''The method '%s' of the built in object '%s' is not supported.'',
      template_code = 100000\<rparr>"

definition BuiltInPropertyNotSupported :: DiagnosticTemplate where
  "BuiltInPropertyNotSupported =
     \<lparr>template_message = ''The property '%s' of the built in object '%s' is not supported.'',
      template_code = 100001\<rparr>"

definition BuiltInObjectDoesNotSupportElementAccess :: DiagnosticTemplate where
  "BuiltInObjectDoesNotSupportElementAccess =
     \<lparr>template_message = ''The built in object '%s' does not support element access (%s[index] or $s[index]=value).'',
      template_code = 100002\<rparr>"

definition UnsupportedBuiltInClass :: DiagnosticTemplate where
  "UnsupportedBuiltInClass =
     \<lparr>template_message = ''The class referenced by this identifier is not supported.'',
      template_code = 100003\<rparr>"

definition UnsupportedLiteralType :: DiagnosticTemplate where
  "UnsupportedLiteralType =
     \<lparr>template_message = ''The literal type '%s' is not supported.'',
      template_code = 100004\<rparr>"

definition UnsupportedType :: DiagnosticTemplate where
  "UnsupportedType =
     \<lparr>template_message = ''The type '%s' is not supported.'',
      template_code = 100005\<rparr>"

definition UnsupportedIdentifier :: DiagnosticTemplate where
  "UnsupportedIdentifier =
     \<lparr>template_message = ''Unsupported type or kind of identifier '%s'.'',
      template_code = 100006\<rparr>"

definition UnsupportedBinaryOperation :: DiagnosticTemplate where
  "UnsupportedBinaryOperation =
     \<lparr>template_message = ''The binary operator %s is not supported for the left and right hand side types '%s' and '%s'.'',
      template_code = 100007\<rparr>"

definition UnsupportedUnaryOperation :: DiagnosticTemplate where
  "UnsupportedUnaryOperation =
     \<lparr>template_message = ''The unary operator %s is not supported for the type '%s'.'',
      template_code = 100008\<rparr>"

definition AnonymousEntryFunctionsUnsupported :: DiagnosticTemplate where
  "AnonymousEntryFunctionsUnsupported =
     \<lparr>template_message = ''SpeedyJS entry functions need to have a name.'',
      template_code = 100009\<rparr>"

definition ReferenceToNonEntrySpeedyJSFunctionFromJS :: DiagnosticTemplate where
  "ReferenceToNonEntrySpeedyJSFunctionFromJS =
     \<lparr>template_message = ''SpeedyJS functions referenced from 'normal' JavaScript code needs to be async (the async modifier is missing on the declaration of '%s').'',
      template_code = 100010\<rparr>"

definition OptionalParametersNotSupportedForEntryFunction :: DiagnosticTemplate where
  "OptionalParametersNotSupportedForEntryFunction =
     \<lparr>template_message = ''Optional parameters or variadic parameters are not supported for SpeedyJS entry functions.'',
      template_code = 100011\<rparr>"

definition GenericEntryFunctionNotSuppoorted :: DiagnosticTemplate where
  "GenericEntryFunctionNotSuppoorted =
     \<lparr>template_message = ''Generic SpeedyJS entry functions are not supported.'',
      template_code = 100012\<rparr>"

definition OverloadedEntryFunctionNotSupported :: DiagnosticTemplate where
  "OverloadedEntryFunctionNotSupported =
     \<lparr>template_message = ''SpeedyJS entry function cannot be overloaded.'',
      template_code = 100013\<rparr>"

definition UnsupportedSyntaxKind :: DiagnosticTemplate where
  "UnsupportedSyntaxKind =
     \<lparr>template_message = ''The syntax kind '%s' is not yet supported.'',
      template_code = 100014\<rparr>"

definition UnsupportedProperty :: DiagnosticTemplate where
  "UnsupportedProperty =
     \<lparr>template_message = ''The kind of property is not yet supported, only object properties are supported.'',
      template_code = 1000015\<rparr>"

definition UnsupportedIndexer :: DiagnosticTemplate where
  "UnsupportedIndexer =
     \<lparr>template_message = ''The kind of indexer is not yet supported'',
      template_code = 1000016\<rparr>"

definition UnsupportedCast :: DiagnosticTemplate where
  "UnsupportedCast =
     \<lparr>template_message = ''Casting from '%s' to '%s' is not yet supported'',
      template_code = 1000017\<rparr>"

definition UnsupportedImplicitArrayElementCast :: DiagnosticTemplate where
  "UnsupportedImplicitArrayElementCast =
     \<lparr>template_message = ''The array element of type '%s' requires an implicit cast to the array element type '%s'. Implicit casts are not supported. An explicit cast of the element to the array element type is required.'',
      template_code = 1000018\<rparr>"

definition UnsupportedImplicitCastOfBinaryExpressionOperands :: DiagnosticTemplate where
  "UnsupportedImplicitCastOfBinaryExpressionOperands =
     \<lparr>template_message = ''No implicit cast for the binary expressions operands (left: %s, right: %s) exists. An explicit cast of either of the operands to the other's type is required.'',
      template_code = 1000019\<rparr>"

definition UnsupportedImplicitCastOfArgument :: DiagnosticTemplate where
  "UnsupportedImplicitCastOfArgument =
     \<lparr>template_message = ''Unsupported implicit cast of the argument with the type '%s' to the expected parameter type '%s'. An explicit cast of the argument to the type '%s' is required.'',
      template_code = 1000020\<rparr>"

definition UnsupportedImplicitCastOfConditionalResult :: DiagnosticTemplate where
  "UnsupportedImplicitCastOfConditionalResult =
     \<lparr>template_message = ''Unsupported implicit cast of conditional case with type '%s' to the type '%s' of the whole conditional expression. An explicit cast of the conditional case to the type '%s' is required.'',
      template_code = 1000021\<rparr>"

definition UnsupportedElementAccessExpression :: DiagnosticTemplate where
  "UnsupportedElementAccessExpression =
     \<lparr>template_message = ''Unsupported element access expression with indexer of type '%s'. Only element access expressions with an integer index are supported.'',
      template_code = 1000022\<rparr>"

definition UnsupportedImplicitCastOfReturnValue :: DiagnosticTemplate where
  "UnsupportedImplicitCastOfReturnValue =
     \<lparr>template_message = ''Unsupported implicit cast of return value with the type '%s' to function's return type '%s'. An explicit cast of the return value to the expected return type '%s' is required.'',
      template_code = 1000023\<rparr>"

definition UnsupportedImplicitCast :: DiagnosticTemplate where
  "UnsupportedImplicitCast =
     \<lparr>template_message = ''Unsupported implicit cast of value with the type '%s' to the expected type '%s'. An explicit cast of the value to the type '%s' is required.'',
      template_code = 1000024\<rparr>"

definition UnsupportedGenericFunction :: DiagnosticTemplate where
  "UnsupportedGenericFunction =
     \<lparr>template_message = ''Generic functions and methods are not yet supported.'',
      template_code = 1000025\<rparr>"

definition UnsupportedStaticProperty :: DiagnosticTemplate where
  "UnsupportedStaticProperty =
     \<lparr>template_message = ''Static methods and properties are not yet supported.'',
      template_code = 1000026\<rparr>"

definition UnsupportedNestedFunctionDeclaration :: DiagnosticTemplate where
  "UnsupportedNestedFunctionDeclaration =
     \<lparr>template_message = ''Functions nested inside of other functions that potentially make use of a closure are not yet supported'',
      template_code = 1000027\<rparr>"

definition UnsupportedFunctionDeclaration :: DiagnosticTemplate where
  "UnsupportedFunctionDeclaration =
     \<lparr>template_message = ''Unsupported function declaration. Only function and method declarations are supported.'',
      template_code = 1000028\<rparr>"

definition UnsupportedVarDeclaration :: DiagnosticTemplate where
  "UnsupportedVarDeclaration =
     \<lparr>template_message = ''Unsupported 'var' declaration of variable. Only variables with block scope ('let' and 'const') are supported.'',
      template_code = 1000029\<rparr>"

definition UnsupportedOverloadedFunctionDeclaration :: DiagnosticTemplate where
  "UnsupportedOverloadedFunctionDeclaration =
     \<lparr>template_message = ''Overloaded functions are not yet supported.'',
      template_code = 1000030\<rparr>"

definition UnsupportedGenericClass :: DiagnosticTemplate where
  "UnsupportedGenericClass =
     \<lparr>template_message = ''Generic classes are not yet supported.'',
      template_code = 1000031\<rparr>"

definition UnsupportedClassInheritance :: DiagnosticTemplate where
  "UnsupportedClassInheritance =
     \<lparr>template_message = ''Class inheritance is not yet supported.'',
      template_code = 1000032\<rparr>"

subsection \<open>The factory functions\<close>

text \<open>
  \<^verbatim>\<open>throw e\<close>, where \<open>e\<close> is the call of a factory: the raise of the diagnostic the
  factory returned, or the raise the factory ended with itself.
\<close>

definition throw :: "failure + CodeGenerationDiagnostic \<Rightarrow> failure" where
  "throw r = (case r of Inl e \<Rightarrow> e | Inr d \<Rightarrow> Thrown d)"

text \<open>
  Every factory takes the node as an option, \<open>None\<close> being a call with \<^verbatim>\<open>undefined\<close>.
  A factory that reads a member of the node to build its arguments raises the
  TypeError before \<open>createException\<close> is entered.
\<close>

definition createException ::
  "Node option \<Rightarrow> DiagnosticTemplate \<Rightarrow> string list \<Rightarrow> failure + CodeGenerationDiagnostic" where
  "createException n diagnostic args =
     (let message = format (template_message diagnostic) args
      in new_CodeGenerationDiagnostic n (template_code diagnostic) message)"

definition builtInMethodNotSupported ::
  "PropertyAccessExpression option \<Rightarrow> string \<Rightarrow> string \<Rightarrow> failure + CodeGenerationDiagnostic" where
  "builtInMethodNotSupported propertyAccessExpression objectName methodName =
     createException (map_option Node.truncate propertyAccessExpression)
       BuiltInMethodNotSupported [methodName, objectName]"

definition builtInPropertyNotSupported ::
  "PropertyAccessExpression option \<Rightarrow> string \<Rightarrow> failure + CodeGenerationDiagnostic" where
  "builtInPropertyNotSupported property objectName =
     (case property of
        None \<Rightarrow> Inl TypeError
      | Some p \<Rightarrow>
          createException (Some (Node.truncate p)) BuiltInPropertyNotSupported
            [identifierText (name p), objectName])"

definition builtInDoesNotSupportElementAccess ::
  "Node option \<Rightarrow> string \<Rightarrow> failure + CodeGenerationDiagnostic" where
  "builtInDoesNotSupportElementAccess element objectName =
     createException element BuiltInObjectDoesNotSupportElementAccess [objectName]"

definition unsupportedLiteralType ::
  "Node option \<Rightarrow> string \<Rightarrow> failure + CodeGenerationDiagnostic" where
  "unsupportedLiteralType n typeName =
     createException n UnsupportedLiteralType [typeName]"

definition unsupportedType ::
  "Node option \<Rightarrow> string \<Rightarrow> failure + CodeGenerationDiagnostic" where
  "unsupportedType n typeName =
     createException n UnsupportedType [typeName]"

definition unsupportedIdentifier ::
  "Identifier option \<Rightarrow> failure + CodeGenerationDiagnostic" where
  "unsupportedIdentifier identifier =
     (case identifier of
        None \<Rightarrow> Inl TypeError
      | Some i \<Rightarrow>
          createException (Some (Node.truncate i)) UnsupportedIdentifier [identifierText i])"

text \<open>
  \<^verbatim>\<open>ts.SyntaxKind[k]\<close> is the reverse mapping of the front end's enumeration of syntax
  kinds, from the number to the name. The enumeration is declared by the front end, so
  the three factories that print a kind take the mapping as their first argument.
\<close>

definition unsupportedBinaryOperation ::
  "(SyntaxKind \<Rightarrow> string) \<Rightarrow> BinaryExpression option \<Rightarrow> string \<Rightarrow> string \<Rightarrow> failure + CodeGenerationDiagnostic" where
  "unsupportedBinaryOperation SyntaxKindName binaryExpression leftType rightType =
     (case binaryExpression of
        None \<Rightarrow> Inl TypeError
      | Some b \<Rightarrow>
          createException (Some (Node.truncate b)) UnsupportedBinaryOperation
            [SyntaxKindName (kind (operatorToken b)), leftType, rightType])"

definition unsupportedUnaryOperation ::
  "(SyntaxKind \<Rightarrow> string) \<Rightarrow> UnaryExpression option \<Rightarrow> string \<Rightarrow> failure + CodeGenerationDiagnostic" where
  "unsupportedUnaryOperation SyntaxKindName n typeName =
     (case n of
        None \<Rightarrow> Inl TypeError
      | Some u \<Rightarrow>
          createException (Some (Node.truncate u)) UnsupportedUnaryOperation
            [SyntaxKindName (operator u), typeName])"

definition anonymousEntryFunctionsNotSupported ::
  "Node option \<Rightarrow> failure + CodeGenerationDiagnostic" where
  "anonymousEntryFunctionsNotSupported f =
     createException f AnonymousEntryFunctionsUnsupported []"

definition optionalParametersInEntryFunctionNotSupported ::
  "Node option \<Rightarrow> failure + CodeGenerationDiagnostic" where
  "optionalParametersInEntryFunctionNotSupported optionalParameter =
     createException optionalParameter OptionalParametersNotSupportedForEntryFunction []"

definition genericEntryFunctionNotSupported ::
  "Node option \<Rightarrow> failure + CodeGenerationDiagnostic" where
  "genericEntryFunctionNotSupported f =
     createException f GenericEntryFunctionNotSuppoorted []"

definition unsupportedClassReferencedBy ::
  "Identifier option \<Rightarrow> failure + CodeGenerationDiagnostic" where
  "unsupportedClassReferencedBy identifier =
     createException (map_option Node.truncate identifier) UnsupportedBuiltInClass []"

definition referenceToNonSpeedyJSEntryFunctionFromJS ::
  "Identifier option \<Rightarrow> Symbol \<Rightarrow> failure + CodeGenerationDiagnostic" where
  "referenceToNonSpeedyJSEntryFunctionFromJS identifier speedyJSFunctionSymbol =
     createException (map_option Node.truncate identifier)
       ReferenceToNonEntrySpeedyJSFunctionFromJS [symbolName speedyJSFunctionSymbol]"

definition overloadedEntryFunctionNotSupported ::
  "Node option \<Rightarrow> failure + CodeGenerationDiagnostic" where
  "overloadedEntryFunctionNotSupported f =
     createException f OverloadedEntryFunctionNotSupported []"

definition unsupportedSyntaxKind ::
  "(SyntaxKind \<Rightarrow> string) \<Rightarrow> Node option \<Rightarrow> failure + CodeGenerationDiagnostic" where
  "unsupportedSyntaxKind SyntaxKindName n =
     (case n of
        None \<Rightarrow> Inl TypeError
      | Some nd \<Rightarrow> createException (Some nd) UnsupportedSyntaxKind [SyntaxKindName (kind nd)])"

definition unsupportedProperty ::
  "PropertyAccessExpression option \<Rightarrow> failure + CodeGenerationDiagnostic" where
  "unsupportedProperty propertyExpression =
     createException (map_option Node.truncate propertyExpression) UnsupportedProperty []"

definition unsupportedIndexer ::
  "Node option \<Rightarrow> failure + CodeGenerationDiagnostic" where
  "unsupportedIndexer n =
     createException n UnsupportedIndexer []"

definition unsupportedCast ::
  "Node option \<Rightarrow> string \<Rightarrow> string \<Rightarrow> failure + CodeGenerationDiagnostic" where
  "unsupportedCast n sourceType targetType =
     createException n UnsupportedCast [sourceType, targetType]"

definition implicitArrayElementCast ::
  "Node option \<Rightarrow> string \<Rightarrow> string \<Rightarrow> failure + CodeGenerationDiagnostic" where
  "implicitArrayElementCast element arrayElementType typeOfElementRequiringImplicitCast =
     createException element UnsupportedImplicitArrayElementCast [typeOfElementRequiringImplicitCast, arrayElementType]"

definition unsupportedImplicitCastOfBinaryExpressionOperands ::
  "BinaryExpression option \<Rightarrow> string \<Rightarrow> string \<Rightarrow> failure + CodeGenerationDiagnostic" where
  "unsupportedImplicitCastOfBinaryExpressionOperands binaryExpression leftOperandType rightOperandType =
     createException (map_option Node.truncate binaryExpression) UnsupportedImplicitCastOfBinaryExpressionOperands [leftOperandType, rightOperandType]"

definition unsupportedImplicitCastOfArgument ::
  "Node option \<Rightarrow> string \<Rightarrow> string \<Rightarrow> failure + CodeGenerationDiagnostic" where
  "unsupportedImplicitCastOfArgument elementNotMatchingArrayElementType parameterType argumentType =
     createException elementNotMatchingArrayElementType UnsupportedImplicitCastOfArgument [argumentType, parameterType, parameterType]"

definition unsupportedImplicitCastOfConditionalResult ::
  "Node option \<Rightarrow> string \<Rightarrow> string \<Rightarrow> failure + CodeGenerationDiagnostic" where
  "unsupportedImplicitCastOfConditionalResult conditionalResult typeOfConditional typeOfConditionResult =
     createException conditionalResult UnsupportedImplicitCastOfConditionalResult [typeOfConditionResult, typeOfConditional, typeOfConditional]"

text \<open>
  The optional second parameter is an option; \<^verbatim>\<open>argumentExpressionType || "undefined"\<close>
  takes the default for an absent and for an empty string.
\<close>

definition unsupportedElementAccessExpression ::
  "Node option \<Rightarrow> string option \<Rightarrow> failure + CodeGenerationDiagnostic" where
  "unsupportedElementAccessExpression elementAccessExpression argumentExpressionType =
     createException elementAccessExpression UnsupportedElementAccessExpression
       [case argumentExpressionType of
          None \<Rightarrow> ''undefined''
        | Some s \<Rightarrow> if s = [] then ''undefined'' else s]"

definition unsupportedImplicitCastOfReturnValue ::
  "Node option \<Rightarrow> string \<Rightarrow> string \<Rightarrow> failure + CodeGenerationDiagnostic" where
  "unsupportedImplicitCastOfReturnValue returnStatement declaredReturnType returnStatementExpressionType =
     createException returnStatement UnsupportedImplicitCastOfReturnValue [returnStatementExpressionType, declaredReturnType, declaredReturnType]"

definition unsupportedImplicitCast ::
  "Node option \<Rightarrow> string \<Rightarrow> string \<Rightarrow> failure + CodeGenerationDiagnostic" where
  "unsupportedImplicitCast n castTargetType actualValueType =
     createException n UnsupportedImplicitCast [actualValueType, castTargetType, castTargetType]"

text \<open>
  This factory has \<^verbatim>\<open>throw\<close> where the others have \<^verbatim>\<open>return\<close>: the diagnostic it
  builds leaves it as a raise.
\<close>

definition unsupportedFunctionDeclaration ::
  "Node option \<Rightarrow> failure + CodeGenerationDiagnostic" where
  "unsupportedFunctionDeclaration declaration =
     Inl (throw (createException declaration UnsupportedFunctionDeclaration []))"

definition unsupportedGenericFunction ::
  "Node option \<Rightarrow> failure + CodeGenerationDiagnostic" where
  "unsupportedGenericFunction functionDeclaration =
     createException functionDeclaration UnsupportedGenericFunction []"

definition unsupportedStaticProperties ::
  "PropertyAccessExpression option \<Rightarrow> failure + CodeGenerationDiagnostic" where
  "unsupportedStaticProperties propertyExpression =
     createException (map_option Node.truncate propertyExpression) UnsupportedStaticProperty []"

definition unsupportedNestedFunctionDeclaration ::
  "Node option \<Rightarrow> failure + CodeGenerationDiagnostic" where
  "unsupportedNestedFunctionDeclaration functionDeclaration =
     createException functionDeclaration UnsupportedNestedFunctionDeclaration []"

definition variableDeclarationList ::
  "Node option \<Rightarrow> failure + CodeGenerationDiagnostic" where
  "variableDeclarationList declarationList =
     createException declarationList UnsupportedVarDeclaration []"

definition unsupportedOverloadedFunctionDeclaration ::
  "Node option \<Rightarrow> failure + CodeGenerationDiagnostic" where
  "unsupportedOverloadedFunctionDeclaration declaration =
     createException declaration UnsupportedOverloadedFunctionDeclaration []"

definition unsupportedGenericClass ::
  "Node option \<Rightarrow> failure + CodeGenerationDiagnostic" where
  "unsupportedGenericClass classDeclaration =
     createException classDeclaration UnsupportedGenericClass []"

definition unsupportedClassInheritance ::
  "Node option \<Rightarrow> failure + CodeGenerationDiagnostic" where
  "unsupportedClassInheritance classDeclaration =
     createException classDeclaration UnsupportedClassInheritance []"

section \<open>The type mapper\<close>

subsection \<open>Source types and target types\<close>

text \<open>
  A type of the front end, as far as the mapper reads it: the bit set \<^verbatim>\<open>flags\<close>, the
  symbol (absent for a synthetic type) and, for a union, the member types. The masks
  \<^verbatim>\<open>ts.TypeFlags.*\<close> are declared by the front end, not by this compiler, so the mapper
  takes them as a record. \<^verbatim>\<open>type.flags & mask\<close> is truthy when the bitwise conjunction
  of the two 32-bit values is not zero.
\<close>

record TypeFlags =
  IntLike :: "32 word"
  NumberLike :: "32 word"
  BooleanLike :: "32 word"
  Any :: "32 word"
  Void :: "32 word"
  Undefined :: "32 word"
  Object :: "32 word"
  UnionFlag :: "32 word"

datatype ts_Type =
  ts_Type (flags: "32 word") (symbol: "Symbol option") (types: "ts_Type list")

abbreviation hasFlag :: "ts_Type \<Rightarrow> 32 word \<Rightarrow> bool" where
  "hasFlag ty flag \<equiv> flags ty AND flag \<noteq> 0"

text \<open>
  The target types the mapper and the intrinsic declarations build.
  \<^verbatim>\<open>getInt8PtrTy\<close> is \<open>PointerTy Int8Ty\<close> and \<^verbatim>\<open>t.getPointerTo()\<close> is \<open>PointerTy t\<close>.
\<close>

datatype llvm_Type =
  Int32Ty
| DoubleTy
| Int1Ty
| VoidTy
| Int8Ty
| PointerTy llvm_Type
| StructTy string "llvm_Type list"
| FunctionTy llvm_Type "llvm_Type list" bool

datatype LinkageTypes = ExternalLinkage | InternalLinkage | PrivateLinkage

record llvm_Function =
  fn_name :: string
  fn_type :: llvm_Type
  fn_linkage :: LinkageTypes

text \<open>
  A class reference answers \<^verbatim>\<open>getLLVMType(type, context)\<close> with the struct layout it
  generated for the object type.
\<close>

record ClassReference =
  getLLVMType :: "ts_Type \<Rightarrow> llvm_Type"

text \<open>
  The code generation context: the target module, a store of function declarations
  addressed by their position, and the collaborators the mapper asks:
  \<^verbatim>\<open>context.resolveClass\<close>, \<^verbatim>\<open>context.typeChecker.typeToString\<close> and the checker's
  answer to \<^verbatim>\<open>type.getNonNullableType()\<close>.
\<close>

record CodeGenerationContext =
  module :: "llvm_Function list"
  resolveClass :: "ts_Type \<Rightarrow> ClassReference option"
  typeToString :: "ts_Type \<Rightarrow> string"
  getNonNullableType :: "ts_Type \<Rightarrow> ts_Type"

subsection \<open>toLLVMType and isMaybeObjectType\<close>

definition isMaybeObjectType :: "TypeFlags \<Rightarrow> ts_Type \<Rightarrow> bool" where
  "isMaybeObjectType tf ty =
     (if hasFlag ty (UnionFlag tf) then
        length (types ty) = 2 \<and>
        list_ex (\<lambda>t. hasFlag t (Undefined tf)) (types ty) \<and>
        list_ex (\<lambda>t. hasFlag t (Object tf)) (types ty)
      else False)"

text \<open>
  The mapper calls itself on the non-nullable type of a nullable object type, whatever
  the checker answers, so nothing bounds the recursion: the result is an option, and
  \<open>None\<close> is a call that never returns. The last test,
  \<^verbatim>\<open>type.getSymbol() && type.getSymbol().getDeclarations().length > 0\<close>, guards the
  absent symbol but reads the length of the declarations unguarded: on a symbol
  without the member the read raises the TypeError.
\<close>

partial_function (option) toLLVMType ::
  "TypeFlags \<Rightarrow> CodeGenerationContext \<Rightarrow> ts_Type \<Rightarrow> (failure + llvm_Type) option" where
  "toLLVMType tf context ty =
     (if hasFlag ty (IntLike tf) then Some (Inr Int32Ty)
      else if hasFlag ty (NumberLike tf) then Some (Inr DoubleTy)
      else if hasFlag ty (BooleanLike tf) then Some (Inr Int1Ty)
      else if hasFlag ty (Any tf) then
        Some (Inl (Error ''Any type not supported, annotate the type''))
      else if hasFlag ty (Void tf) then Some (Inr VoidTy)
      else if hasFlag ty (Undefined tf) then Some (Inr (PointerTy Int8Ty))
      else
        (case (if hasFlag ty (Object tf) then resolveClass context ty else None) of
           Some classReference \<Rightarrow> Some (Inr (PointerTy (getLLVMType classReference ty)))
         | None \<Rightarrow>
             if isMaybeObjectType tf ty then
               toLLVMType tf context (getNonNullableType context ty)
             else
               (case symbol ty of
                  None \<Rightarrow> Some (Inl (Error (''Unsupported type '' @ typeToString context ty)))
                | Some s \<Rightarrow>
                    (case declarations s of
                       None \<Rightarrow> Some (Inl TypeError)
                     | Some [] \<Rightarrow>
                         Some (Inl (Error (''Unsupported type '' @ typeToString context ty)))
                     | Some (d # _) \<Rightarrow>
                         Some (Inl (throw (unsupportedType (Some d) (typeToString context ty))))))))"

declare toLLVMType.simps [code]

text \<open>Whether a call of the mapper ended by raising a \<open>CodeGenerationDiagnostic\<close>.\<close>

definition raisesDiagnostic :: "(failure + llvm_Type) option \<Rightarrow> bool" where
  "raisesDiagnostic r =
     (case r of
        Some (Inl e) \<Rightarrow> is_Thrown e
      | _ \<Rightarrow> False)"

section \<open>math-object-reference.ts\<close>

subsection \<open>The target module\<close>

text \<open>
  The module is a store of function declarations; a function handle is the position
  of its declaration. \<^verbatim>\<open>module.getFunction(name)\<close> answers the declaration of that name
  when the module has one. \<^verbatim>\<open>llvm.Function.create(type, linkage, name, module)\<close> adds a
  declaration and answers its handle; the source calls it only after \<^verbatim>\<open>getFunction\<close>
  found nothing under the name.
\<close>

fun getFunction :: "llvm_Function list \<Rightarrow> string \<Rightarrow> nat option" where
  "getFunction [] fnName = None"
| "getFunction (f # fs) fnName =
     (if fn_name f = fnName then Some 0 else map_option Suc (getFunction fs fnName))"

definition Function_create ::
  "llvm_Type \<Rightarrow> LinkageTypes \<Rightarrow> string \<Rightarrow> llvm_Function list \<Rightarrow> nat \<times> llvm_Function list" where
  "Function_create ty linkage fnName m =
     (length m, m @ [\<lparr>fn_name = fnName, fn_type = ty, fn_linkage = linkage\<rparr>])"

subsection \<open>Resolved functions and function references\<close>

text \<open>
  Modelled from the spec: \<^verbatim>\<open>resolved-function.ts\<close> and \<^verbatim>\<open>resolved-function-reference.ts\<close>
  are not among the sources. The spec describes a resolved function as a name, the
  ordered parameters (each a name and a source type), the return type, the optional
  declaring object type, the \<^verbatim>\<open>instanceMethod\<close> flag and the optional originating
  declaration; and a resolved function reference as a resolved function bound to a
  concrete target function handle, which \<^verbatim>\<open>ResolvedFunctionReference.create\<close> wraps.
\<close>

record ResolvedParameter =
  rp_name :: string
  rp_type :: ts_Type

record ResolvedFunction =
  rf_name :: string
  rf_parameters :: "ResolvedParameter list"
  rf_returnType :: ts_Type
  rf_classType :: "ts_Type option"
  rf_declaration :: "Node option"
  instanceMethod :: bool

record ResolvedFunctionReference =
  fn :: nat
  resolvedFunction :: ResolvedFunction

definition ResolvedFunctionReference_create ::
  "nat \<Rightarrow> ResolvedFunction \<Rightarrow> ResolvedFunctionReference" where
  "ResolvedFunctionReference_create f rf = \<lparr>fn = f, resolvedFunction = rf\<rparr>"

record Signature =
  signatureParameters :: "(string \<times> ts_Type) list"
  signatureReturnType :: ts_Type

record FunctionAttributes =
  readnone :: bool
  noUnwind :: bool

text \<open>
  The other functions of those two files are parameters of the model:
  \<^verbatim>\<open>createResolvedFunctionFromSignature(signature, compilationContext, classType)\<close>,
  \<^verbatim>\<open>createResolvedFunction(name, typeParameters, parameters, returnType, declaration, classType)\<close>,
  \<^verbatim>\<open>createResolvedParameter(name, type)\<close> and
  \<^verbatim>\<open>ResolvedFunctionReference.createRuntimeFunction(resolvedFunction, context, attributes)\<close>,
  which may declare the runtime function in the module and so answers the context too.
  The compilation context does not change during a call and is left inside the first
  parameter.
\<close>

record Collaborators =
  createResolvedFunctionFromSignature :: "Signature \<Rightarrow> ts_Type \<Rightarrow> ResolvedFunction"
  createResolvedFunction ::
    "string \<Rightarrow> ts_Type list \<Rightarrow> ResolvedParameter list \<Rightarrow> ts_Type \<Rightarrow> Node option \<Rightarrow>
     ts_Type option \<Rightarrow> ResolvedFunction"
  createResolvedParameter :: "string \<Rightarrow> ts_Type \<Rightarrow> ResolvedParameter"
  createRuntimeFunction ::
    "ResolvedFunction \<Rightarrow> CodeGenerationContext \<Rightarrow> FunctionAttributes \<Rightarrow>
     ResolvedFunctionReference \<times> CodeGenerationContext"

subsection \<open>MathObjectReference\<close>

record MathObjectReference =
  math_typeName :: string
  math_type :: ts_Type

definition createPowFunction ::
  "Collaborators \<Rightarrow> ts_Type \<Rightarrow> ts_Type \<Rightarrow> CodeGenerationContext \<Rightarrow>
   ResolvedFunctionReference \<times> CodeGenerationContext" where
  "createPowFunction api numberType mathType context =
     (let (f, context') =
            (case getFunction (module context) ''llvm.pow.f64'' of
               Some existing \<Rightarrow> (existing, context)
             | None \<Rightarrow>
                 (let doubleTy = DoubleTy;
                      (created, m) =
                        Function_create (FunctionTy doubleTy [doubleTy, doubleTy] False)
                          ExternalLinkage ''llvm.pow.f64'' (module context)
                  in (created, context\<lparr>module := m\<rparr>)));
          parameters =
            [createResolvedParameter api ''value'' numberType,
             createResolvedParameter api ''exp'' numberType];
          resolvedFunction =
            createResolvedFunction api ''pow'' [] parameters numberType None (Some mathType)
      in (ResolvedFunctionReference_create f (resolvedFunction\<lparr>instanceMethod := False\<rparr>),
          context'))"

definition createSqrtFunction ::
  "Collaborators \<Rightarrow> MathObjectReference \<Rightarrow> Signature \<Rightarrow> CodeGenerationContext \<Rightarrow>
   ResolvedFunctionReference \<times> CodeGenerationContext" where
  "createSqrtFunction api this signature context =
     (let (f, context') =
            (case getFunction (module context) ''llvm.sqrt.f64'' of
               Some existing \<Rightarrow> (existing, context)
             | None \<Rightarrow>
                 (let doubleTy = DoubleTy;
                      (created, m) =
                        Function_create (FunctionTy doubleTy [doubleTy] False)
                          ExternalLinkage ''llvm.sqrt.f64'' (module context)
                  in (created, context\<lparr>module := m\<rparr>)));
          resolvedFunction =
            createResolvedFunctionFromSignature api signature (math_type this)
      in (ResolvedFunctionReference_create f (resolvedFunction\<lparr>instanceMethod := False\<rparr>),
          context'))"

text \<open>
  The source raises through \<^verbatim>\<open>CodeGenerationError.builtInMethodNotSupported\<close>, the name
  under which it imports the diagnostic class; the factory is
  \<open>builtInMethodNotSupported\<close> above. The assertion on the number of signatures comes
  before the dispatch on the member's name.
\<close>

definition createFunctionFor ::
  "Collaborators \<Rightarrow> MathObjectReference \<Rightarrow> Symbol \<Rightarrow> Signature list \<Rightarrow>
   PropertyAccessExpression \<Rightarrow> CodeGenerationContext \<Rightarrow>
   failure + ResolvedFunctionReference \<times> CodeGenerationContext" where
  "createFunctionFor api this memberSymbol signatures propertyAccessExpression context =
     (if length signatures \<noteq> 1 then
        Inl (AssertionError ''Math functions have not to be overloaded'')
      else if symbolName memberSymbol = ''log'' \<or> symbolName memberSymbol = ''sin'' \<or> symbolName memberSymbol = ''cos'' then
        (let resolvedFunction =
               createResolvedFunctionFromSignature api (signatures ! 0) (math_type this)
         in Inr (createRuntimeFunction api (resolvedFunction\<lparr>instanceMethod := False\<rparr>) context
              \<lparr>readnone = True, noUnwind = True\<rparr>))
      else if symbolName memberSymbol = ''pow'' then
        Inr (createPowFunction api (signatureReturnType (signatures ! 0)) (math_type this) context)
      else if symbolName memberSymbol = ''sqrt'' then
        Inr (createSqrtFunction api this (signatures ! 0) context)
      else
        Inl (throw (builtInMethodNotSupported (Some propertyAccessExpression) ''Math''
          (symbolName memberSymbol))))"

section \<open>Sample inputs\<close>

text \<open>
  Concrete values at which the definitions above are evaluated: an assignment of
  pairwise disjoint masks to the flags, a few types, and a context whose class
  resolution knows the class \<^verbatim>\<open>Point\<close> only and whose checker answers the one member
  of a union that is not undefined.
\<close>

definition sampleFlags :: TypeFlags where
  "sampleFlags =
     \<lparr>IntLike = 0x2000000, NumberLike = 340, BooleanLike = 136, Any = 1, Void = 1024,
      Undefined = 2048, Object = 32768, UnionFlag = 65536\<rparr>"

definition sampleDeclaration :: "string \<Rightarrow> Node" where
  "sampleDeclaration file = \<lparr>kind = 229, fullStart = 17, fullWidth = 42, sourceFile = file\<rparr>"

definition sampleIntType :: ts_Type where
  "sampleIntType = ts_Type 0x2000000 None []"

definition sampleNumberType :: ts_Type where
  "sampleNumberType = ts_Type 4 None []"

definition sampleBooleanType :: ts_Type where
  "sampleBooleanType = ts_Type 8 None []"

definition sampleAnyType :: ts_Type where
  "sampleAnyType = ts_Type 1 None []"

definition sampleVoidType :: ts_Type where
  "sampleVoidType = ts_Type 1024 None []"

definition sampleUndefinedType :: ts_Type where
  "sampleUndefinedType = ts_Type 2048 None []"

definition sampleStringType :: ts_Type where
  "sampleStringType = ts_Type 2 None []"

definition samplePointType :: ts_Type where
  "samplePointType =
     ts_Type 32768
       (Some \<lparr>symbolName = ''Point'', declarations = Some [sampleDeclaration ''point.ts'']\<rparr>) []"

definition sampleShapeType :: ts_Type where
  "sampleShapeType =
     ts_Type 32768
       (Some \<lparr>symbolName = ''Shape'', declarations = Some [sampleDeclaration ''shape.ts'']\<rparr>) []"

text \<open>
  The checker's type of the empty object literal \<^verbatim>\<open>{}\<close>: an object type whose symbol
  \<^verbatim>\<open>__type\<close> was made without declarations.
\<close>

definition sampleEmptyObjectType :: ts_Type where
  "sampleEmptyObjectType =
     ts_Type 32768 (Some \<lparr>symbolName = ''__type'', declarations = None\<rparr>) []"

definition sampleMaybePointType :: ts_Type where
  "sampleMaybePointType = ts_Type 65536 None [samplePointType, sampleUndefinedType]"

definition sampleAnyIntType :: ts_Type where
  "sampleAnyIntType = ts_Type 0x2000001 None []"

definition sampleContext :: CodeGenerationContext where
  "sampleContext =
     \<lparr>module = [],
      resolveClass = (\<lambda>t. if t = samplePointType
         then Some \<lparr>getLLVMType = (\<lambda>_. StructTy ''Point'' [DoubleTy, DoubleTy])\<rparr> else None),
      typeToString = (\<lambda>t. case symbol t of None \<Rightarrow> ''string'' | Some s \<Rightarrow> symbolName s),
      getNonNullableType = (\<lambda>t.
         case filter (\<lambda>member. \<not> hasFlag member (Undefined sampleFlags)) (types t) of
           [member] \<Rightarrow> member
         | _ \<Rightarrow> t)\<rparr>"

text \<open>
  Sample collaborators: resolved functions are built from their arguments, and the
  runtime function of a resolved function is declared at the end of the module.
\<close>

definition sampleCollaborators :: Collaborators where
  "sampleCollaborators =
     \<lparr>createResolvedFunctionFromSignature = (\<lambda>signature classType.
        \<lparr>rf_name = ''fromSignature'',
         rf_parameters = map (\<lambda>(n, t). \<lparr>rp_name = n, rp_type = t\<rparr>) (signatureParameters signature),
         rf_returnType = signatureReturnType signature, rf_classType = Some classType,
         rf_declaration = None, instanceMethod = True\<rparr>),
      createResolvedFunction = (\<lambda>n typeParameters ps r d c.
        \<lparr>rf_name = n, rf_parameters = ps, rf_returnType = r, rf_classType = c,
         rf_declaration = d, instanceMethod = True\<rparr>),
      createResolvedParameter = (\<lambda>n t. \<lparr>rp_name = n, rp_type = t\<rparr>),
      createRuntimeFunction = (\<lambda>rf context attributes.
        (\<lparr>fn = length (module context), resolvedFunction = rf\<rparr>,
         context\<lparr>module := module context @
           [\<lparr>fn_name = rf_name rf, fn_type = FunctionTy DoubleTy [DoubleTy] False,
             fn_linkage = ExternalLinkage\<rparr>]\<rparr>))\<rparr>"

definition sampleMath :: MathObjectReference where
  "sampleMath =
     \<lparr>math_typeName = ''Math'',
      math_type = ts_Type 32768 (Some \<lparr>symbolName = ''Math'', declarations = Some []\<rparr>) []\<rparr>"

definition sampleSignature :: Signature where
  "sampleSignature =
     \<lparr>signatureParameters = [(''x'', sampleNumberType)], signatureReturnType = sampleNumberType\<rparr>"

definition sampleMember :: "string \<Rightarrow> Symbol" where
  "sampleMember n = \<lparr>symbolName = n, declarations = Some []\<rparr>"

definition sampleAccess :: PropertyAccessExpression where
  "sampleAccess =
     \<lparr>kind = 179, fullStart = 30, fullWidth = 11, sourceFile = ''main.ts'',
      name = \<lparr>kind = 71, fullStart = 35, fullWidth = 6, sourceFile = ''main.ts'',
        identifierText = ''random''\<rparr>\<rparr>"

section \<open>Properties\<close>

text \<open>
  C7. Converting a diagnostic to the host format gives a record with the diagnostic's
  code and message, the full start and the full width of its node, the category error
  and the node's source file.
\<close>

theorem toDiagnostic_record:
  "toDiagnostic d =
     \<lparr>diag_code = code d,
      diag_messageText = message d,
      diag_start = fullStart (node d),
      diag_length = fullWidth (node d),
      diag_category = CategoryError,
      diag_file = sourceFile (node d)\<rparr>"
  by (simp add: toDiagnostic_def)

text \<open>
  C10. The element-access factory returns a diagnostic with code 100002 whose message
  carries the object name in the first placeholder only: the second \<^verbatim>\<open>%s\<close> and the
  \<^verbatim>\<open>$s\<close> of the template are in every rendered message as they are in the template.
\<close>

theorem builtInDoesNotSupportElementAccess_message:
  "builtInDoesNotSupportElementAccess (Some element) objectName =
     Inr \<lparr>node = element, code = 100002,
          message = ''The built in object '' @ CHR 0x27 # objectName
            @ ''' does not support element access (%s[index] or $s[index]=value).''\<rparr>"
  by (simp add: builtInDoesNotSupportElementAccess_def createException_def
      BuiltInObjectDoesNotSupportElementAccess_def format_def
      new_CodeGenerationDiagnostic_def)

lemmas node_factory_defs =
  builtInMethodNotSupported_def builtInPropertyNotSupported_def
  builtInDoesNotSupportElementAccess_def unsupportedLiteralType_def unsupportedType_def
  unsupportedIdentifier_def unsupportedBinaryOperation_def unsupportedUnaryOperation_def
  anonymousEntryFunctionsNotSupported_def optionalParametersInEntryFunctionNotSupported_def
  genericEntryFunctionNotSupported_def unsupportedClassReferencedBy_def
  referenceToNonSpeedyJSEntryFunctionFromJS_def overloadedEntryFunctionNotSupported_def
  unsupportedSyntaxKind_def unsupportedProperty_def unsupportedIndexer_def
  unsupportedCast_def implicitArrayElementCast_def
  unsupportedImplicitCastOfBinaryExpressionOperands_def unsupportedImplicitCastOfArgument_def
  unsupportedImplicitCastOfConditionalResult_def unsupportedElementAccessExpression_def
  unsupportedImplicitCastOfReturnValue_def unsupportedImplicitCast_def
  unsupportedFunctionDeclaration_def unsupportedGenericFunction_def
  unsupportedStaticProperties_def unsupportedNestedFunctionDeclaration_def
  variableDeclarationList_def unsupportedOverloadedFunctionDeclaration_def
  unsupportedGenericClass_def unsupportedClassInheritance_def

lemma new_CodeGenerationDiagnostic_fails_iff:
  "isl (new_CodeGenerationDiagnostic n c m) \<longleftrightarrow> n = None \<or> c = 0 \<or> m = []"
  by (simp add: new_CodeGenerationDiagnostic_def split: option.split)

lemma new_CodeGenerationDiagnostic_Inr:
  "new_CodeGenerationDiagnostic n c m = Inr d \<Longrightarrow>
     n = Some (node d) \<and> code d = c \<and> message d = m \<and> c \<noteq> 0 \<and> m \<noteq> []"
  by (auto simp: new_CodeGenerationDiagnostic_def split: option.splits if_splits)

lemma createException_absent_node: "isl (createException None diagnostic args)"
  by (simp add: createException_def new_CodeGenerationDiagnostic_def)

lemma createException_Inr:
  "createException n diagnostic args = Inr d \<Longrightarrow>
     n = Some (node d) \<and> code d \<noteq> 0 \<and> message d \<noteq> []"
  unfolding createException_def Let_def
  by (drule new_CodeGenerationDiagnostic_Inr) simp

text \<open>
  C3. The constructor fails exactly when the node is absent, the code is zero or the
  message is empty. Every diagnostic that \<open>createException\<close> hands out, and so every
  diagnostic of a factory, has a node, a non-zero code and a non-empty message, and
  each of the factory functions fails when it is called without a node.
\<close>

theorem diagnostic_construction_precondition:
  "(isl (new_CodeGenerationDiagnostic n c m) \<longleftrightarrow> n = None \<or> c = 0 \<or> m = [])
   \<and> (createException n' diagnostic args = Inr d \<longrightarrow>
        n' = Some (node d) \<and> code d \<noteq> 0 \<and> message d \<noteq> [])
   \<and> isl (builtInMethodNotSupported None objectName methodName)
   \<and> isl (builtInPropertyNotSupported None objectName)
   \<and> isl (builtInDoesNotSupportElementAccess None objectName)
   \<and> isl (unsupportedLiteralType None typeName)
   \<and> isl (unsupportedType None typeName)
   \<and> isl (unsupportedIdentifier None)
   \<and> isl (unsupportedBinaryOperation SyntaxKindName None leftType rightType)
   \<and> isl (unsupportedUnaryOperation SyntaxKindName None typeName)
   \<and> isl (anonymousEntryFunctionsNotSupported None)
   \<and> isl (optionalParametersInEntryFunctionNotSupported None)
   \<and> isl (genericEntryFunctionNotSupported None)
   \<and> isl (unsupportedClassReferencedBy None)
   \<and> isl (referenceToNonSpeedyJSEntryFunctionFromJS None speedyJSFunctionSymbol)
   \<and> isl (overloadedEntryFunctionNotSupported None)
   \<and> isl (unsupportedSyntaxKind SyntaxKindName None)
   \<and> isl (unsupportedProperty None)
   \<and> isl (unsupportedIndexer None)
   \<and> isl (unsupportedCast None sourceType targetType)
   \<and> isl (implicitArrayElementCast None arrayElementType elementType)
   \<and> isl (unsupportedImplicitCastOfBinaryExpressionOperands None leftType rightType)
   \<and> isl (unsupportedImplicitCastOfArgument None parameterType argumentType)
   \<and> isl (unsupportedImplicitCastOfConditionalResult None typeOfConditional typeOfResult)
   \<and> isl (unsupportedElementAccessExpression None argumentExpressionType)
   \<and> isl (unsupportedImplicitCastOfReturnValue None declaredReturnType expressionType)
   \<and> isl (unsupportedImplicitCast None castTargetType actualValueType)
   \<and> isl (unsupportedFunctionDeclaration None)
   \<and> isl (unsupportedGenericFunction None)
   \<and> isl (unsupportedStaticProperties None)
   \<and> isl (unsupportedNestedFunctionDeclaration None)
   \<and> isl (variableDeclarationList None)
   \<and> isl (unsupportedOverloadedFunctionDeclaration None)
   \<and> isl (unsupportedGenericClass None)
   \<and> isl (unsupportedClassInheritance None)"
proof -
  have ctor: "isl (new_CodeGenerationDiagnostic n c m) \<longleftrightarrow> n = None \<or> c = 0 \<or> m = []"
    by (rule new_CodeGenerationDiagnostic_fails_iff)
  have made: "createException n' diagnostic args = Inr d \<longrightarrow>
      n' = Some (node d) \<and> code d \<noteq> 0 \<and> message d \<noteq> []"
    using createException_Inr by blast
  show ?thesis
    using ctor made
    by (simp add: node_factory_defs createException_absent_node)
qed

theorem diagnostic_construction_precondition_witness:
  "isl (new_CodeGenerationDiagnostic None 100005 ''The type 'any' is not supported.'')
   \<and> isl (new_CodeGenerationDiagnostic
        (Some \<lparr>kind = 71, fullStart = 4, fullWidth = 9, sourceFile = ''main.ts''\<rparr>) 0
        ''The type 'any' is not supported.'')
   \<and> isl (new_CodeGenerationDiagnostic
        (Some \<lparr>kind = 71, fullStart = 4, fullWidth = 9, sourceFile = ''main.ts''\<rparr>) 100005 [])
   \<and> new_CodeGenerationDiagnostic
        (Some \<lparr>kind = 71, fullStart = 4, fullWidth = 9, sourceFile = ''main.ts''\<rparr>) 100005
        ''The type 'any' is not supported.''
      = Inr \<lparr>node = \<lparr>kind = 71, fullStart = 4, fullWidth = 9, sourceFile = ''main.ts''\<rparr>,
             code = 100005, message = ''The type 'any' is not supported.''\<rparr>
   \<and> isl (unsupportedType None ''any'')"
  using diagnostic_construction_precondition
    [of None 100005 "''The type 'any' is not supported.''"]
    diagnostic_construction_precondition
    [of "Some \<lparr>kind = 71, fullStart = 4, fullWidth = 9, sourceFile = ''main.ts''\<rparr>" 0
        "''The type 'any' is not supported.''"]
    diagnostic_construction_precondition
    [of "Some \<lparr>kind = 71, fullStart = 4, fullWidth = 9, sourceFile = ''main.ts''\<rparr>" 100005 "[]"]
    diagnostic_construction_precondition [where typeName = "''any''"]
  by (simp add: new_CodeGenerationDiagnostic_def)

text \<open>
  C8. The factory \<open>unsupportedFunctionDeclaration\<close>, called with a declaration node,
  does not return its diagnostic: the diagnostic is raised. A sibling such as
  \<open>unsupportedGenericFunction\<close> returns it.
\<close>

theorem unsupportedFunctionDeclaration_raises:
  "unsupportedFunctionDeclaration (Some declaration) =
     Inl (Thrown \<lparr>node = declaration, code = 1000028,
       message = ''Unsupported function declaration. Only function and method declarations are supported.''\<rparr>)"
  by (simp add: unsupportedFunctionDeclaration_def throw_def createException_def format_def
      UnsupportedFunctionDeclaration_def new_CodeGenerationDiagnostic_def)

lemma unsupportedGenericFunction_returns:
  "unsupportedGenericFunction (Some functionDeclaration) =
     Inr \<lparr>node = functionDeclaration, code = 1000025,
       message = ''Generic functions and methods are not yet supported.''\<rparr>"
  by (simp add: unsupportedGenericFunction_def createException_def format_def
      UnsupportedGenericFunction_def new_CodeGenerationDiagnostic_def)

subsection \<open>The type mapper, rule by rule\<close>

lemma toLLVMType_IntLike:
  "hasFlag ty (IntLike tf) \<Longrightarrow> toLLVMType tf context ty = Some (Inr Int32Ty)"
  by (subst toLLVMType.simps) simp

lemma toLLVMType_NumberLike:
  "\<not> hasFlag ty (IntLike tf) \<Longrightarrow> hasFlag ty (NumberLike tf) \<Longrightarrow>
     toLLVMType tf context ty = Some (Inr DoubleTy)"
  by (subst toLLVMType.simps) simp

lemma toLLVMType_BooleanLike:
  "\<not> hasFlag ty (IntLike tf) \<Longrightarrow> \<not> hasFlag ty (NumberLike tf) \<Longrightarrow>
   hasFlag ty (BooleanLike tf) \<Longrightarrow>
     toLLVMType tf context ty = Some (Inr Int1Ty)"
  by (subst toLLVMType.simps) simp

lemma toLLVMType_Any:
  "\<not> hasFlag ty (IntLike tf) \<Longrightarrow> \<not> hasFlag ty (NumberLike tf) \<Longrightarrow>
   \<not> hasFlag ty (BooleanLike tf) \<Longrightarrow> hasFlag ty (Any tf) \<Longrightarrow>
     toLLVMType tf context ty = Some (Inl (Error ''Any type not supported, annotate the type''))"
  by (subst toLLVMType.simps) simp

lemma toLLVMType_Void:
  "\<not> hasFlag ty (IntLike tf) \<Longrightarrow> \<not> hasFlag ty (NumberLike tf) \<Longrightarrow>
   \<not> hasFlag ty (BooleanLike tf) \<Longrightarrow> \<not> hasFlag ty (Any tf) \<Longrightarrow>
   hasFlag ty (Void tf) \<Longrightarrow>
     toLLVMType tf context ty = Some (Inr VoidTy)"
  by (subst toLLVMType.simps) simp

lemma toLLVMType_Undefined:
  "\<not> hasFlag ty (IntLike tf) \<Longrightarrow> \<not> hasFlag ty (NumberLike tf) \<Longrightarrow>
   \<not> hasFlag ty (BooleanLike tf) \<Longrightarrow> \<not> hasFlag ty (Any tf) \<Longrightarrow>
   \<not> hasFlag ty (Void tf) \<Longrightarrow> hasFlag ty (Undefined tf) \<Longrightarrow>
     toLLVMType tf context ty = Some (Inr (PointerTy Int8Ty))"
  by (subst toLLVMType.simps) simp

lemma toLLVMType_Object:
  "\<not> hasFlag ty (IntLike tf) \<Longrightarrow> \<not> hasFlag ty (NumberLike tf) \<Longrightarrow>
   \<not> hasFlag ty (BooleanLike tf) \<Longrightarrow> \<not> hasFlag ty (Any tf) \<Longrightarrow>
   \<not> hasFlag ty (Void tf) \<Longrightarrow> \<not> hasFlag ty (Undefined tf) \<Longrightarrow>
   hasFlag ty (Object tf) \<Longrightarrow> resolveClass context ty = Some classReference \<Longrightarrow>
     toLLVMType tf context ty = Some (Inr (PointerTy (getLLVMType classReference ty)))"
  by (subst toLLVMType.simps) simp

lemma toLLVMType_MaybeObject:
  "\<not> hasFlag ty (IntLike tf) \<Longrightarrow> \<not> hasFlag ty (NumberLike tf) \<Longrightarrow>
   \<not> hasFlag ty (BooleanLike tf) \<Longrightarrow> \<not> hasFlag ty (Any tf) \<Longrightarrow>
   \<not> hasFlag ty (Void tf) \<Longrightarrow> \<not> hasFlag ty (Undefined tf) \<Longrightarrow>
   \<not> (hasFlag ty (Object tf) \<and> resolveClass context ty \<noteq> None) \<Longrightarrow>
   isMaybeObjectType tf ty \<Longrightarrow>
     toLLVMType tf context ty = toLLVMType tf context (getNonNullableType context ty)"
  by (subst toLLVMType.simps) auto

lemma isMaybeObjectType_pair:
  "hasFlag ty (UnionFlag tf) \<Longrightarrow> types ty = [a, b] \<Longrightarrow>
   (hasFlag a (Object tf) \<and> hasFlag b (Undefined tf)) \<or>
   (hasFlag b (Object tf) \<and> hasFlag a (Undefined tf)) \<Longrightarrow>
     isMaybeObjectType tf ty"
  by (auto simp: isMaybeObjectType_def)

lemma toLLVMType_declared:
  "\<not> hasFlag ty (IntLike tf) \<Longrightarrow> \<not> hasFlag ty (NumberLike tf) \<Longrightarrow>
   \<not> hasFlag ty (BooleanLike tf) \<Longrightarrow> \<not> hasFlag ty (Any tf) \<Longrightarrow>
   \<not> hasFlag ty (Void tf) \<Longrightarrow> \<not> hasFlag ty (Undefined tf) \<Longrightarrow>
   \<not> (hasFlag ty (Object tf) \<and> resolveClass context ty \<noteq> None) \<Longrightarrow>
   \<not> isMaybeObjectType tf ty \<Longrightarrow>
   symbol ty = Some s \<Longrightarrow> declarations s = Some (d # ds) \<Longrightarrow>
     toLLVMType tf context ty =
       Some (Inl (Thrown \<lparr>node = d, code = 100005,
         message = ''The type '' @ CHR 0x27 # typeToString context ty @ ''' is not supported.''\<rparr>))"
  by (subst toLLVMType.simps)
    (auto simp: unsupportedType_def createException_def UnsupportedType_def format_def
      new_CodeGenerationDiagnostic_def throw_def)

lemma toLLVMType_undeclared:
  "\<not> hasFlag ty (IntLike tf) \<Longrightarrow> \<not> hasFlag ty (NumberLike tf) \<Longrightarrow>
   \<not> hasFlag ty (BooleanLike tf) \<Longrightarrow> \<not> hasFlag ty (Any tf) \<Longrightarrow>
   \<not> hasFlag ty (Void tf) \<Longrightarrow> \<not> hasFlag ty (Undefined tf) \<Longrightarrow>
   \<not> (hasFlag ty (Object tf) \<and> resolveClass context ty \<noteq> None) \<Longrightarrow>
   \<not> isMaybeObjectType tf ty \<Longrightarrow>
   symbol ty = None \<or> (\<exists>s. symbol ty = Some s \<and> declarations s = Some []) \<Longrightarrow>
     toLLVMType tf context ty =
       Some (Inl (Error (''Unsupported type '' @ typeToString context ty)))"
  by (subst toLLVMType.simps) auto

text \<open>
  C1. The mapper tests its rules in the order of the source and the first match wins:
  an integer-like type maps to the 32-bit integer type, another number-like type to
  the double type, a boolean-like type to the 1-bit integer type, void to the void type,
  undefined to the pointer to an 8-bit integer, an object type whose class resolves to
  the pointer to that class's struct layout, and a union of exactly an object type and
  undefined to whatever its non-nullable member maps to: the pointer to the member's
  struct layout when the member's class resolves.
\<close>

theorem toLLVMType_supported:
  "(hasFlag ty (IntLike tf) \<longrightarrow> toLLVMType tf context ty = Some (Inr Int32Ty))
   \<and> (\<not> hasFlag ty (IntLike tf) \<and> hasFlag ty (NumberLike tf) \<longrightarrow>
        toLLVMType tf context ty = Some (Inr DoubleTy))
   \<and> (\<not> hasFlag ty (IntLike tf) \<and> \<not> hasFlag ty (NumberLike tf) \<and>
       hasFlag ty (BooleanLike tf) \<longrightarrow>
        toLLVMType tf context ty = Some (Inr Int1Ty))
   \<and> (\<not> hasFlag ty (IntLike tf) \<and> \<not> hasFlag ty (NumberLike tf) \<and>
       \<not> hasFlag ty (BooleanLike tf) \<and> \<not> hasFlag ty (Any tf) \<and>
       hasFlag ty (Void tf) \<longrightarrow>
        toLLVMType tf context ty = Some (Inr VoidTy))
   \<and> (\<not> hasFlag ty (IntLike tf) \<and> \<not> hasFlag ty (NumberLike tf) \<and>
       \<not> hasFlag ty (BooleanLike tf) \<and> \<not> hasFlag ty (Any tf) \<and>
       \<not> hasFlag ty (Void tf) \<and> hasFlag ty (Undefined tf) \<longrightarrow>
        toLLVMType tf context ty = Some (Inr (PointerTy Int8Ty)))
   \<and> (\<not> hasFlag ty (IntLike tf) \<and> \<not> hasFlag ty (NumberLike tf) \<and>
       \<not> hasFlag ty (BooleanLike tf) \<and> \<not> hasFlag ty (Any tf) \<and>
       \<not> hasFlag ty (Void tf) \<and> \<not> hasFlag ty (Undefined tf) \<and>
       hasFlag ty (Object tf) \<and> resolveClass context ty = Some classReference \<longrightarrow>
        toLLVMType tf context ty = Some (Inr (PointerTy (getLLVMType classReference ty))))
   \<and> (\<not> hasFlag ty (IntLike tf) \<and> \<not> hasFlag ty (NumberLike tf) \<and>
       \<not> hasFlag ty (BooleanLike tf) \<and> \<not> hasFlag ty (Any tf) \<and>
       \<not> hasFlag ty (Void tf) \<and> \<not> hasFlag ty (Undefined tf) \<and>
       \<not> (hasFlag ty (Object tf) \<and> resolveClass context ty \<noteq> None) \<and>
       hasFlag ty (UnionFlag tf) \<and>
       (types ty = [objectMember, undefinedMember] \<or>
        types ty = [undefinedMember, objectMember]) \<and>
       hasFlag objectMember (Object tf) \<and> hasFlag undefinedMember (Undefined tf) \<and>
       getNonNullableType context ty = objectMember \<longrightarrow>
        toLLVMType tf context ty = toLLVMType tf context objectMember
        \<and> (\<not> hasFlag objectMember (IntLike tf) \<and> \<not> hasFlag objectMember (NumberLike tf) \<and>
            \<not> hasFlag objectMember (BooleanLike tf) \<and> \<not> hasFlag objectMember (Any tf) \<and>
            \<not> hasFlag objectMember (Void tf) \<and> \<not> hasFlag objectMember (Undefined tf) \<and>
            resolveClass context objectMember = Some memberClass \<longrightarrow>
             toLLVMType tf context ty =
               Some (Inr (PointerTy (getLLVMType memberClass objectMember)))))"
proof -
  have nullable: "toLLVMType tf context ty = toLLVMType tf context objectMember"
    if miss: "\<not> hasFlag ty (IntLike tf)" "\<not> hasFlag ty (NumberLike tf)"
      "\<not> hasFlag ty (BooleanLike tf)" "\<not> hasFlag ty (Any tf)"
      "\<not> hasFlag ty (Void tf)" "\<not> hasFlag ty (Undefined tf)"
      "\<not> (hasFlag ty (Object tf) \<and> resolveClass context ty \<noteq> None)"
    and union: "hasFlag ty (UnionFlag tf)"
    and members: "types ty = [objectMember, undefinedMember] \<or>
        types ty = [undefinedMember, objectMember]"
    and kinds: "hasFlag objectMember (Object tf)" "hasFlag undefinedMember (Undefined tf)"
    and checker: "getNonNullableType context ty = objectMember"
  proof -
    from members have "isMaybeObjectType tf ty"
    proof
      assume "types ty = [objectMember, undefinedMember]"
      with union kinds show ?thesis by (intro isMaybeObjectType_pair) auto
    next
      assume "types ty = [undefinedMember, objectMember]"
      with union kinds show ?thesis by (intro isMaybeObjectType_pair) auto
    qed
    with miss have "toLLVMType tf context ty =
        toLLVMType tf context (getNonNullableType context ty)"
      by (rule toLLVMType_MaybeObject)
    with checker show ?thesis by simp
  qed
  have member: "toLLVMType tf context ty =
      Some (Inr (PointerTy (getLLVMType memberClass objectMember)))"
    if "toLLVMType tf context ty = toLLVMType tf context objectMember"
      "hasFlag objectMember (Object tf)"
      "\<not> hasFlag objectMember (IntLike tf)" "\<not> hasFlag objectMember (NumberLike tf)"
      "\<not> hasFlag objectMember (BooleanLike tf)" "\<not> hasFlag objectMember (Any tf)"
      "\<not> hasFlag objectMember (Void tf)" "\<not> hasFlag objectMember (Undefined tf)"
      "resolveClass context objectMember = Some memberClass"
    using that toLLVMType_Object [of objectMember tf "context" memberClass] by simp
  show ?thesis
    using toLLVMType_IntLike [of ty tf "context"] toLLVMType_NumberLike [of ty tf "context"]
      toLLVMType_BooleanLike [of ty tf "context"] toLLVMType_Void [of ty tf "context"]
      toLLVMType_Undefined [of ty tf "context"]
      toLLVMType_Object [of ty tf "context" classReference] nullable member
    by blast
qed

theorem toLLVMType_supported_witness:
  "toLLVMType sampleFlags sampleContext sampleIntType = Some (Inr Int32Ty)
   \<and> toLLVMType sampleFlags sampleContext sampleNumberType = Some (Inr DoubleTy)
   \<and> toLLVMType sampleFlags sampleContext sampleBooleanType = Some (Inr Int1Ty)
   \<and> toLLVMType sampleFlags sampleContext sampleVoidType = Some (Inr VoidTy)
   \<and> toLLVMType sampleFlags sampleContext sampleUndefinedType = Some (Inr (PointerTy Int8Ty))
   \<and> toLLVMType sampleFlags sampleContext samplePointType =
        Some (Inr (PointerTy (StructTy ''Point'' [DoubleTy, DoubleTy])))
   \<and> toLLVMType sampleFlags sampleContext sampleMaybePointType =
        Some (Inr (PointerTy (StructTy ''Point'' [DoubleTy, DoubleTy])))"
  using toLLVMType_supported [of sampleIntType sampleFlags sampleContext]
    toLLVMType_supported [of sampleNumberType sampleFlags sampleContext]
    toLLVMType_supported [of sampleBooleanType sampleFlags sampleContext]
    toLLVMType_supported [of sampleVoidType sampleFlags sampleContext]
    toLLVMType_supported [of sampleUndefinedType sampleFlags sampleContext]
    toLLVMType_supported [of samplePointType sampleFlags sampleContext
      "\<lparr>getLLVMType = (\<lambda>_. StructTy ''Point'' [DoubleTy, DoubleTy])\<rparr>"]
    toLLVMType_supported [of sampleMaybePointType sampleFlags sampleContext _ samplePointType
      sampleUndefinedType
      "\<lparr>getLLVMType = (\<lambda>_. StructTy ''Point'' [DoubleTy, DoubleTy])\<rparr>"]
  by (simp add: sampleFlags_def sampleContext_def sampleIntType_def sampleNumberType_def sampleBooleanType_def
      sampleVoidType_def sampleUndefinedType_def samplePointType_def sampleMaybePointType_def)

text \<open>
  C4 as stated fails. At a type whose only flag is \<^verbatim>\<open>Any\<close> the mapper raises a plain
  \<^verbatim>\<open>Error\<close>, which is no diagnostic (it has neither a code nor a node); and at a type
  that has the integer flag besides \<^verbatim>\<open>Any\<close> the earlier rule wins and the mapper
  returns the 32-bit integer type.
\<close>

theorem toLLVMType_any_counterexample:
  "hasFlag sampleAnyType (Any sampleFlags)
   \<and> toLLVMType sampleFlags sampleContext sampleAnyType =
       Some (Inl (Error ''Any type not supported, annotate the type''))
   \<and> \<not> raisesDiagnostic (toLLVMType sampleFlags sampleContext sampleAnyType)
   \<and> hasFlag sampleAnyIntType (Any sampleFlags)
   \<and> toLLVMType sampleFlags sampleContext sampleAnyIntType = Some (Inr Int32Ty)"
proof -
  have plain: "toLLVMType sampleFlags sampleContext sampleAnyType =
      Some (Inl (Error ''Any type not supported, annotate the type''))"
    by (rule toLLVMType_Any) (simp_all add: sampleFlags_def sampleAnyType_def)
  have early: "toLLVMType sampleFlags sampleContext sampleAnyIntType = Some (Inr Int32Ty)"
    by (rule toLLVMType_IntLike) (simp add: sampleFlags_def sampleAnyIntType_def)
  show ?thesis
    by (simp add: plain early raisesDiagnostic_def)
      (simp add: sampleFlags_def sampleAnyType_def sampleAnyIntType_def)
qed

text \<open>
  C4, amended. For every type that has the \<^verbatim>\<open>Any\<close> flag and is not matched by the
  integer-like, number-like and boolean-like rules before it, the mapper fails with the
  plain error \<^verbatim>\<open>Any type not supported, annotate the type\<close>: it returns no target type,
  reaches no later rule, and what it raises is not a diagnostic.
\<close>

theorem toLLVMType_any_fails:
  "hasFlag ty (Any tf) \<and> \<not> hasFlag ty (IntLike tf) \<and> \<not> hasFlag ty (NumberLike tf) \<and>
   \<not> hasFlag ty (BooleanLike tf) \<longrightarrow>
     toLLVMType tf context ty = Some (Inl (Error ''Any type not supported, annotate the type''))
     \<and> \<not> raisesDiagnostic (toLLVMType tf context ty)"
proof (intro impI, elim conjE)
  assume "hasFlag ty (Any tf)" "\<not> hasFlag ty (IntLike tf)" "\<not> hasFlag ty (NumberLike tf)"
    "\<not> hasFlag ty (BooleanLike tf)"
  then have "toLLVMType tf context ty =
      Some (Inl (Error ''Any type not supported, annotate the type''))"
    by (intro toLLVMType_Any)
  then show "toLLVMType tf context ty =
      Some (Inl (Error ''Any type not supported, annotate the type''))
      \<and> \<not> raisesDiagnostic (toLLVMType tf context ty)"
    by (simp add: raisesDiagnostic_def)
qed

theorem toLLVMType_any_fails_witness:
  "hasFlag sampleAnyType (Any sampleFlags) \<and> \<not> hasFlag sampleAnyType (IntLike sampleFlags)
   \<and> \<not> hasFlag sampleAnyType (NumberLike sampleFlags) \<and> \<not> hasFlag sampleAnyType (BooleanLike sampleFlags)
   \<and> toLLVMType sampleFlags sampleContext sampleAnyType =
       Some (Inl (Error ''Any type not supported, annotate the type''))"
  using toLLVMType_any_fails [of sampleAnyType sampleFlags sampleContext]
  by (simp add: sampleFlags_def sampleAnyType_def)

lemma toLLVMType_declarations_undefined:
  "\<not> hasFlag ty (IntLike tf) \<Longrightarrow> \<not> hasFlag ty (NumberLike tf) \<Longrightarrow>
   \<not> hasFlag ty (BooleanLike tf) \<Longrightarrow> \<not> hasFlag ty (Any tf) \<Longrightarrow>
   \<not> hasFlag ty (Void tf) \<Longrightarrow> \<not> hasFlag ty (Undefined tf) \<Longrightarrow>
   \<not> (hasFlag ty (Object tf) \<and> resolveClass context ty \<noteq> None) \<Longrightarrow>
   \<not> isMaybeObjectType tf ty \<Longrightarrow>
   symbol ty = Some s \<Longrightarrow> declarations s = None \<Longrightarrow>
     toLLVMType tf context ty = Some (Inl TypeError)"
  by (subst toLLVMType.simps) auto

text \<open>
  What the last two rules do for a type that no earlier rule matches, when its symbol
  is absent or has an array of declarations: the diagnostic \<open>UnsupportedType\<close>, code
  100005, at the first declaration and with the checker's rendering of the type in the
  message, when the array has an element; the plain error that carries the rendering,
  when there is no symbol or the array is empty.
\<close>

lemma toLLVMType_unsupported_array:
  "\<not> hasFlag ty (IntLike tf) \<and> \<not> hasFlag ty (NumberLike tf) \<and>
   \<not> hasFlag ty (BooleanLike tf) \<and> \<not> hasFlag ty (Any tf) \<and>
   \<not> hasFlag ty (Void tf) \<and> \<not> hasFlag ty (Undefined tf) \<and>
   \<not> (hasFlag ty (Object tf) \<and> resolveClass context ty \<noteq> None) \<and>
   \<not> isMaybeObjectType tf ty \<longrightarrow>
     (symbol ty = Some s \<and> declarations s = Some (d # ds) \<longrightarrow>
        toLLVMType tf context ty =
          Some (Inl (Thrown \<lparr>node = d, code = 100005,
            message = ''The type '' @ CHR 0x27 # typeToString context ty
              @ ''' is not supported.''\<rparr>)))
     \<and> (symbol ty = None \<or> (\<exists>s'. symbol ty = Some s' \<and> declarations s' = Some []) \<longrightarrow>
        toLLVMType tf context ty =
          Some (Inl (Error (''Unsupported type '' @ typeToString context ty))))"
  using toLLVMType_declared [of ty tf "context" s d ds] toLLVMType_undeclared [of ty tf "context"]
  by blast

lemma toLLVMType_unsupported_samples:
  "toLLVMType sampleFlags sampleContext sampleShapeType =
     Some (Inl (Thrown \<lparr>node = sampleDeclaration ''shape.ts'', code = 100005,
       message = ''The type 'Shape' is not supported.''\<rparr>))
   \<and> toLLVMType sampleFlags sampleContext sampleStringType =
     Some (Inl (Error ''Unsupported type string''))"
  using toLLVMType_unsupported_array [of sampleShapeType sampleFlags sampleContext
      "\<lparr>symbolName = ''Shape'', declarations = Some [sampleDeclaration ''shape.ts'']\<rparr>"
      "sampleDeclaration ''shape.ts''" "[]"]
    toLLVMType_unsupported_array [of sampleStringType sampleFlags sampleContext]
  by (simp add: sampleFlags_def sampleContext_def sampleShapeType_def sampleStringType_def samplePointType_def
      isMaybeObjectType_def)

text \<open>
  C6. The checker's type of the empty object literal has a symbol that was made
  without declarations, and no earlier rule matches it. The mapper reads the length
  of the absent declarations and ends in a TypeError: it raises neither the
  diagnostic \<open>UnsupportedType\<close> nor the plain unsupported-type error that the types
  without a declaration are meant to end in.
\<close>

theorem toLLVMType_undefined_declarations_raises:
  "toLLVMType sampleFlags sampleContext sampleEmptyObjectType = Some (Inl TypeError)"
  by (rule toLLVMType_declarations_undefined
      [where s = "\<lparr>symbolName = ''__type'', declarations = None\<rparr>"])
    (simp_all add: sampleFlags_def sampleContext_def sampleEmptyObjectType_def
      samplePointType_def isMaybeObjectType_def)

subsection \<open>The Math object\<close>

lemma getFunction_Some:
  "getFunction m n = Some i \<Longrightarrow> i < length m \<and> fn_name (m ! i) = n"
  by (induction m arbitrary: i) (auto split: if_splits)

lemma getFunction_None_iff:
  "getFunction m n = None \<longleftrightarrow> filter (\<lambda>f. fn_name f = n) m = []"
  by (induction m) auto

lemma getFunction_append_declared:
  "getFunction m n = None \<Longrightarrow> fn_name f = n \<Longrightarrow> getFunction (m @ [f]) n = Some (length m)"
  by (induction m) (auto split: if_splits)

lemma createPowFunction_existing:
  "getFunction (module context) ''llvm.pow.f64'' = Some i \<Longrightarrow>
     fn (fst (createPowFunction api numberType mathType context)) = i \<and>
     snd (createPowFunction api numberType mathType context) = context"
  by (simp add: createPowFunction_def ResolvedFunctionReference_create_def)

lemma createPowFunction_fresh:
  "getFunction (module context) ''llvm.pow.f64'' = None \<Longrightarrow>
     fn (fst (createPowFunction api numberType mathType context)) = length (module context) \<and>
     snd (createPowFunction api numberType mathType context) =
       context\<lparr>module := module context @
         [\<lparr>fn_name = ''llvm.pow.f64'', fn_type = FunctionTy DoubleTy [DoubleTy, DoubleTy] False,
           fn_linkage = ExternalLinkage\<rparr>]\<rparr>"
  by (simp add: createPowFunction_def ResolvedFunctionReference_create_def Function_create_def)

lemma createPowFunction_lookup:
  "getFunction (module (snd (createPowFunction api numberType mathType context))) ''llvm.pow.f64''
     = Some (fn (fst (createPowFunction api numberType mathType context)))"
proof (cases "getFunction (module context) ''llvm.pow.f64''")
  case None
  then show ?thesis
    using createPowFunction_fresh [OF None, of api numberType mathType]
    by (simp add: getFunction_append_declared)
next
  case (Some i)
  then show ?thesis
    using createPowFunction_existing [OF Some, of api numberType mathType] by simp
qed

lemma createPowFunction_count:
  "length (filter (\<lambda>f. fn_name f = ''llvm.pow.f64'')
       (module (snd (createPowFunction api numberType mathType context))))
     = max 1 (length (filter (\<lambda>f. fn_name f = ''llvm.pow.f64'') (module context)))"
proof (cases "getFunction (module context) ''llvm.pow.f64''")
  case None
  moreover from None have "filter (\<lambda>f. fn_name f = ''llvm.pow.f64'') (module context) = []"
    by (simp add: getFunction_None_iff)
  ultimately show ?thesis
    using createPowFunction_fresh [of "context" api numberType mathType] by simp
next
  case (Some i)
  then have "filter (\<lambda>f. fn_name f = ''llvm.pow.f64'') (module context) \<noteq> []"
    using getFunction_None_iff [of "module context" "''llvm.pow.f64''"] by simp
  then have "1 \<le> length (filter (\<lambda>f. fn_name f = ''llvm.pow.f64'') (module context))"
    by (cases "filter (\<lambda>f. fn_name f = ''llvm.pow.f64'') (module context)") simp_all
  with Some show ?thesis
    using createPowFunction_existing [OF Some, of api numberType mathType] by simp
qed

lemma createSqrtFunction_existing:
  "getFunction (module context) ''llvm.sqrt.f64'' = Some i \<Longrightarrow>
     fn (fst (createSqrtFunction api this signature context)) = i \<and>
     snd (createSqrtFunction api this signature context) = context"
  by (simp add: createSqrtFunction_def ResolvedFunctionReference_create_def)

lemma createSqrtFunction_fresh:
  "getFunction (module context) ''llvm.sqrt.f64'' = None \<Longrightarrow>
     fn (fst (createSqrtFunction api this signature context)) = length (module context) \<and>
     snd (createSqrtFunction api this signature context) =
       context\<lparr>module := module context @
         [\<lparr>fn_name = ''llvm.sqrt.f64'', fn_type = FunctionTy DoubleTy [DoubleTy] False,
           fn_linkage = ExternalLinkage\<rparr>]\<rparr>"
  by (simp add: createSqrtFunction_def ResolvedFunctionReference_create_def Function_create_def)

lemma createSqrtFunction_lookup:
  "getFunction (module (snd (createSqrtFunction api this signature context))) ''llvm.sqrt.f64''
     = Some (fn (fst (createSqrtFunction api this signature context)))"
proof (cases "getFunction (module context) ''llvm.sqrt.f64''")
  case None
  then show ?thesis
    using createSqrtFunction_fresh [OF None, of api this signature]
    by (simp add: getFunction_append_declared)
next
  case (Some i)
  then show ?thesis
    using createSqrtFunction_existing [OF Some, of api this signature] by simp
qed

lemma createSqrtFunction_count:
  "length (filter (\<lambda>f. fn_name f = ''llvm.sqrt.f64'')
       (module (snd (createSqrtFunction api this signature context))))
     = max 1 (length (filter (\<lambda>f. fn_name f = ''llvm.sqrt.f64'') (module context)))"
proof (cases "getFunction (module context) ''llvm.sqrt.f64''")
  case None
  moreover from None have "filter (\<lambda>f. fn_name f = ''llvm.sqrt.f64'') (module context) = []"
    by (simp add: getFunction_None_iff)
  ultimately show ?thesis
    using createSqrtFunction_fresh [of "context" api this signature] by simp
next
  case (Some i)
  then have "filter (\<lambda>f. fn_name f = ''llvm.sqrt.f64'') (module context) \<noteq> []"
    using getFunction_None_iff [of "module context" "''llvm.sqrt.f64''"] by simp
  then have "1 \<le> length (filter (\<lambda>f. fn_name f = ''llvm.sqrt.f64'') (module context))"
    by (cases "filter (\<lambda>f. fn_name f = ''llvm.sqrt.f64'') (module context)") simp_all
  with Some show ?thesis
    using createSqrtFunction_existing [OF Some, of api this signature] by simp
qed

text \<open>
  C5. Declaring the pow intrinsic twice in one module is idempotent, and so is
  declaring the sqrt intrinsic: the second call answers a reference to the function
  declaration of the first call and leaves the context, and with it the module, as the
  first call left it; the reference is to a declaration of the intrinsic's name, and
  after both calls the module has one declaration of that name (or as many as it had
  before the first call, when it had some).
\<close>

theorem intrinsic_declaration_idempotent:
  "(createPowFunction api numberType mathType context = (r1, context1) \<and>
    createPowFunction api numberType' mathType' context1 = (r2, context2) \<longrightarrow>
      fn r2 = fn r1 \<and> context2 = context1 \<and>
      fn r1 < length (module context1) \<and>
      fn_name (module context1 ! fn r1) = ''llvm.pow.f64'' \<and>
      length (filter (\<lambda>f. fn_name f = ''llvm.pow.f64'') (module context2)) =
        max 1 (length (filter (\<lambda>f. fn_name f = ''llvm.pow.f64'') (module context))))
   \<and> (createSqrtFunction api this signature context = (s1, context1') \<and>
       createSqrtFunction api this' signature' context1' = (s2, context2') \<longrightarrow>
      fn s2 = fn s1 \<and> context2' = context1' \<and>
      fn s1 < length (module context1') \<and>
      fn_name (module context1' ! fn s1) = ''llvm.sqrt.f64'' \<and>
      length (filter (\<lambda>f. fn_name f = ''llvm.sqrt.f64'') (module context2')) =
        max 1 (length (filter (\<lambda>f. fn_name f = ''llvm.sqrt.f64'') (module context))))"
proof (intro conjI impI; elim conjE)
  assume first: "createPowFunction api numberType mathType context = (r1, context1)"
    and second: "createPowFunction api numberType' mathType' context1 = (r2, context2)"
  from first have found: "getFunction (module context1) ''llvm.pow.f64'' = Some (fn r1)"
    using createPowFunction_lookup [of api numberType mathType "context"] by simp
  from first have count: "length (filter (\<lambda>f. fn_name f = ''llvm.pow.f64'') (module context1)) =
      max 1 (length (filter (\<lambda>f. fn_name f = ''llvm.pow.f64'') (module context)))"
    using createPowFunction_count [of api numberType mathType "context"] by simp
  from second have same: "fn r2 = fn r1 \<and> context2 = context1"
    using createPowFunction_existing [OF found, of api numberType' mathType'] by simp
  with found count show "fn r2 = fn r1" "context2 = context1"
    "fn r1 < length (module context1)"
    "fn_name (module context1 ! fn r1) = ''llvm.pow.f64''"
    "length (filter (\<lambda>f. fn_name f = ''llvm.pow.f64'') (module context2)) =
      max 1 (length (filter (\<lambda>f. fn_name f = ''llvm.pow.f64'') (module context)))"
    using getFunction_Some [OF found] by simp_all
next
  assume first: "createSqrtFunction api this signature context = (s1, context1')"
    and second: "createSqrtFunction api this' signature' context1' = (s2, context2')"
  from first have found: "getFunction (module context1') ''llvm.sqrt.f64'' = Some (fn s1)"
    using createSqrtFunction_lookup [of api this signature "context"] by simp
  from first have count: "length (filter (\<lambda>f. fn_name f = ''llvm.sqrt.f64'') (module context1')) =
      max 1 (length (filter (\<lambda>f. fn_name f = ''llvm.sqrt.f64'') (module context)))"
    using createSqrtFunction_count [of api this signature "context"] by simp
  from second have same: "fn s2 = fn s1 \<and> context2' = context1'"
    using createSqrtFunction_existing [OF found, of api this' signature'] by simp
  with found count show "fn s2 = fn s1" "context2' = context1'"
    "fn s1 < length (module context1')"
    "fn_name (module context1' ! fn s1) = ''llvm.sqrt.f64''"
    "length (filter (\<lambda>f. fn_name f = ''llvm.sqrt.f64'') (module context2')) =
      max 1 (length (filter (\<lambda>f. fn_name f = ''llvm.sqrt.f64'') (module context)))"
    using getFunction_Some [OF found] by simp_all
qed

theorem intrinsic_declaration_idempotent_witness:
  "fn (fst (createPowFunction sampleCollaborators sampleNumberType (math_type sampleMath)
        (snd (createPowFunction sampleCollaborators sampleIntType (math_type sampleMath)
          sampleContext)))) = 0
   \<and> fn (fst (createPowFunction sampleCollaborators sampleIntType (math_type sampleMath)
        sampleContext)) = 0
   \<and> module (snd (createPowFunction sampleCollaborators sampleNumberType (math_type sampleMath)
        (snd (createPowFunction sampleCollaborators sampleIntType (math_type sampleMath)
          sampleContext)))) =
       [\<lparr>fn_name = ''llvm.pow.f64'', fn_type = FunctionTy DoubleTy [DoubleTy, DoubleTy] False,
         fn_linkage = ExternalLinkage\<rparr>]
   \<and> fn (fst (createSqrtFunction sampleCollaborators sampleMath sampleSignature
        (snd (createSqrtFunction sampleCollaborators sampleMath sampleSignature
          sampleContext)))) = 0
   \<and> module (snd (createSqrtFunction sampleCollaborators sampleMath sampleSignature
        (snd (createSqrtFunction sampleCollaborators sampleMath sampleSignature
          sampleContext)))) =
       [\<lparr>fn_name = ''llvm.sqrt.f64'', fn_type = FunctionTy DoubleTy [DoubleTy] False,
         fn_linkage = ExternalLinkage\<rparr>]"
proof -
  let ?pow1 = "createPowFunction sampleCollaborators sampleIntType (math_type sampleMath)
    sampleContext"
  let ?pow2 = "createPowFunction sampleCollaborators sampleNumberType (math_type sampleMath)
    (snd ?pow1)"
  let ?sqrt1 = "createSqrtFunction sampleCollaborators sampleMath sampleSignature sampleContext"
  let ?sqrt2 = "createSqrtFunction sampleCollaborators sampleMath sampleSignature (snd ?sqrt1)"
  have no_pow: "getFunction (module sampleContext) ''llvm.pow.f64'' = None"
    and no_sqrt: "getFunction (module sampleContext) ''llvm.sqrt.f64'' = None"
    by (simp_all add: sampleContext_def)
  have pow1: "fn (fst ?pow1) = 0"
    "module (snd ?pow1) =
      [\<lparr>fn_name = ''llvm.pow.f64'', fn_type = FunctionTy DoubleTy [DoubleTy, DoubleTy] False,
        fn_linkage = ExternalLinkage\<rparr>]"
    using createPowFunction_fresh [OF no_pow, of sampleCollaborators sampleIntType
        "math_type sampleMath"]
    by (simp_all add: sampleContext_def)
  have sqrt1: "fn (fst ?sqrt1) = 0"
    "module (snd ?sqrt1) =
      [\<lparr>fn_name = ''llvm.sqrt.f64'', fn_type = FunctionTy DoubleTy [DoubleTy] False,
        fn_linkage = ExternalLinkage\<rparr>]"
    using createSqrtFunction_fresh [OF no_sqrt, of sampleCollaborators sampleMath sampleSignature]
    by (simp_all add: sampleContext_def)
  have "fn (fst ?pow2) = fn (fst ?pow1) \<and> snd ?pow2 = snd ?pow1
      \<and> fn (fst ?sqrt2) = fn (fst ?sqrt1) \<and> snd ?sqrt2 = snd ?sqrt1"
    using intrinsic_declaration_idempotent [of sampleCollaborators sampleIntType
        "math_type sampleMath" sampleContext "fst ?pow1" "snd ?pow1" sampleNumberType
        "math_type sampleMath" "fst ?pow2" "snd ?pow2" sampleMath sampleSignature
        "fst ?sqrt1" "snd ?sqrt1" sampleMath sampleSignature "fst ?sqrt2" "snd ?sqrt2"]
    by simp
  with pow1 sqrt1 show ?thesis by simp
qed

lemma builtInMethodNotSupported_Math:
  "builtInMethodNotSupported (Some propertyAccessExpression) ''Math'' methodName =
     Inr \<lparr>node = Node.truncate propertyAccessExpression, code = 100000,
       message = ''The method '' @ CHR 0x27 # methodName
         @ ''' of the built in object 'Math' is not supported.''\<rparr>"
  by (simp add: builtInMethodNotSupported_def createException_def format_def
      BuiltInMethodNotSupported_def new_CodeGenerationDiagnostic_def)

lemma createFunctionFor_runtime:
  "symbolName memberSymbol = ''sin'' \<or> symbolName memberSymbol = ''cos'' \<or>
   symbolName memberSymbol = ''log'' \<Longrightarrow>
     createFunctionFor api this memberSymbol [signature] propertyAccessExpression context =
       Inr (createRuntimeFunction api
         ((createResolvedFunctionFromSignature api signature (math_type this))
            \<lparr>instanceMethod := False\<rparr>)
         context \<lparr>readnone = True, noUnwind = True\<rparr>)"
  by (auto simp: createFunctionFor_def)

lemma createFunctionFor_pow:
  "symbolName memberSymbol = ''pow'' \<Longrightarrow>
     createFunctionFor api this memberSymbol [signature] propertyAccessExpression context =
       Inr (createPowFunction api (signatureReturnType signature) (math_type this) context)"
  by (simp add: createFunctionFor_def)

lemma createFunctionFor_sqrt:
  "symbolName memberSymbol = ''sqrt'' \<Longrightarrow>
     createFunctionFor api this memberSymbol [signature] propertyAccessExpression context =
       Inr (createSqrtFunction api this signature context)"
  by (simp add: createFunctionFor_def)

lemma createFunctionFor_other:
  "symbolName memberSymbol \<notin> {''sin'', ''cos'', ''log'', ''pow'', ''sqrt''} \<Longrightarrow>
     createFunctionFor api this memberSymbol [signature] propertyAccessExpression context =
       Inl (Thrown \<lparr>node = Node.truncate propertyAccessExpression, code = 100000,
         message = ''The method '' @ CHR 0x27 # symbolName memberSymbol
           @ ''' of the built in object 'Math' is not supported.''\<rparr>)"
  by (simp add: createFunctionFor_def builtInMethodNotSupported_Math throw_def)

text \<open>
  C2. With its one signature, the Math object resolves the members \<^verbatim>\<open>sin\<close>, \<^verbatim>\<open>cos\<close> and
  \<^verbatim>\<open>log\<close> to the runtime function reference created with the attributes readnone and
  noUnwind; \<^verbatim>\<open>pow\<close> and \<^verbatim>\<open>sqrt\<close> to a reference whose function is the module's
  declaration named \<^verbatim>\<open>llvm.pow.f64\<close> and \<^verbatim>\<open>llvm.sqrt.f64\<close>; and every other member
  name ends in the raise of the diagnostic \<open>BuiltInMethodNotSupported\<close>, code 100000,
  whose message carries the member name and the object name \<^verbatim>\<open>Math\<close>.
\<close>

theorem createFunctionFor_dispatch:
  "(symbolName memberSymbol = ''sin'' \<or> symbolName memberSymbol = ''cos'' \<or>
    symbolName memberSymbol = ''log'' \<longrightarrow>
      createFunctionFor api this memberSymbol [signature] propertyAccessExpression context =
        Inr (createRuntimeFunction api
          ((createResolvedFunctionFromSignature api signature (math_type this))
             \<lparr>instanceMethod := False\<rparr>)
          context \<lparr>readnone = True, noUnwind = True\<rparr>))
   \<and> (symbolName memberSymbol = ''pow'' \<longrightarrow>
        (\<exists>r context'.
           createFunctionFor api this memberSymbol [signature] propertyAccessExpression context =
             Inr (r, context') \<and>
           fn r < length (module context') \<and>
           fn_name (module context' ! fn r) = ''llvm.pow.f64''))
   \<and> (symbolName memberSymbol = ''sqrt'' \<longrightarrow>
        (\<exists>r context'.
           createFunctionFor api this memberSymbol [signature] propertyAccessExpression context =
             Inr (r, context') \<and>
           fn r < length (module context') \<and>
           fn_name (module context' ! fn r) = ''llvm.sqrt.f64''))
   \<and> (symbolName memberSymbol \<notin> {''sin'', ''cos'', ''log'', ''pow'', ''sqrt''} \<longrightarrow>
        createFunctionFor api this memberSymbol [signature] propertyAccessExpression context =
          Inl (Thrown \<lparr>node = Node.truncate propertyAccessExpression, code = 100000,
            message = ''The method '' @ CHR 0x27 # symbolName memberSymbol
              @ ''' of the built in object 'Math' is not supported.''\<rparr>))"
proof (intro conjI impI)
  assume "symbolName memberSymbol = ''sin'' \<or> symbolName memberSymbol = ''cos'' \<or>
    symbolName memberSymbol = ''log''"
  then show "createFunctionFor api this memberSymbol [signature] propertyAccessExpression context =
      Inr (createRuntimeFunction api
        ((createResolvedFunctionFromSignature api signature (math_type this))
           \<lparr>instanceMethod := False\<rparr>)
        context \<lparr>readnone = True, noUnwind = True\<rparr>)"
    by (rule createFunctionFor_runtime)
next
  let ?p = "createPowFunction api (signatureReturnType signature) (math_type this) context"
  assume "symbolName memberSymbol = ''pow''"
  then have "createFunctionFor api this memberSymbol [signature] propertyAccessExpression context =
      Inr (fst ?p, snd ?p)"
    by (simp add: createFunctionFor_pow)
  moreover have "fn (fst ?p) < length (module (snd ?p)) \<and>
      fn_name (module (snd ?p) ! fn (fst ?p)) = ''llvm.pow.f64''"
    by (rule getFunction_Some) (rule createPowFunction_lookup)
  ultimately show "\<exists>r context'.
      createFunctionFor api this memberSymbol [signature] propertyAccessExpression context =
        Inr (r, context') \<and>
      fn r < length (module context') \<and> fn_name (module context' ! fn r) = ''llvm.pow.f64''"
    by blast
next
  let ?p = "createSqrtFunction api this signature context"
  assume "symbolName memberSymbol = ''sqrt''"
  then have "createFunctionFor api this memberSymbol [signature] propertyAccessExpression context =
      Inr (fst ?p, snd ?p)"
    by (simp add: createFunctionFor_sqrt)
  moreover have "fn (fst ?p) < length (module (snd ?p)) \<and>
      fn_name (module (snd ?p) ! fn (fst ?p)) = ''llvm.sqrt.f64''"
    by (rule getFunction_Some) (rule createSqrtFunction_lookup)
  ultimately show "\<exists>r context'.
      createFunctionFor api this memberSymbol [signature] propertyAccessExpression context =
        Inr (r, context') \<and>
      fn r < length (module context') \<and> fn_name (module context' ! fn r) = ''llvm.sqrt.f64''"
    by blast
next
  assume "symbolName memberSymbol \<notin> {''sin'', ''cos'', ''log'', ''pow'', ''sqrt''}"
  then show "createFunctionFor api this memberSymbol [signature] propertyAccessExpression context =
      Inl (Thrown \<lparr>node = Node.truncate propertyAccessExpression, code = 100000,
        message = ''The method '' @ CHR 0x27 # symbolName memberSymbol
          @ ''' of the built in object 'Math' is not supported.''\<rparr>)"
    by (rule createFunctionFor_other)
qed

theorem createFunctionFor_dispatch_witness:
  "createFunctionFor sampleCollaborators sampleMath (sampleMember ''sin'') [sampleSignature]
       sampleAccess sampleContext =
     Inr (createRuntimeFunction sampleCollaborators
       ((createResolvedFunctionFromSignature sampleCollaborators sampleSignature
           (math_type sampleMath)) \<lparr>instanceMethod := False\<rparr>)
       sampleContext \<lparr>readnone = True, noUnwind = True\<rparr>)
   \<and> (\<exists>r context'.
        createFunctionFor sampleCollaborators sampleMath (sampleMember ''pow'') [sampleSignature]
          sampleAccess sampleContext = Inr (r, context') \<and>
        fn r < length (module context') \<and>
        fn_name (module context' ! fn r) = ''llvm.pow.f64'')
   \<and> (\<exists>r context'.
        createFunctionFor sampleCollaborators sampleMath (sampleMember ''sqrt'') [sampleSignature]
          sampleAccess sampleContext = Inr (r, context') \<and>
        fn r < length (module context') \<and>
        fn_name (module context' ! fn r) = ''llvm.sqrt.f64'')
   \<and> createFunctionFor sampleCollaborators sampleMath (sampleMember ''random'') [sampleSignature]
       sampleAccess sampleContext =
     Inl (Thrown \<lparr>node = \<lparr>kind = 179, fullStart = 30, fullWidth = 11, sourceFile = ''main.ts''\<rparr>,
       code = 100000,
       message = ''The method 'random' of the built in object 'Math' is not supported.''\<rparr>)"
  using createFunctionFor_dispatch [of "sampleMember ''sin''" sampleCollaborators sampleMath
      sampleSignature sampleAccess sampleContext]
    createFunctionFor_dispatch [of "sampleMember ''pow''" sampleCollaborators sampleMath
      sampleSignature sampleAccess sampleContext]
    createFunctionFor_dispatch [of "sampleMember ''sqrt''" sampleCollaborators sampleMath
      sampleSignature sampleAccess sampleContext]
    createFunctionFor_dispatch [of "sampleMember ''random''" sampleCollaborators sampleMath
      sampleSignature sampleAccess sampleContext]
  by (simp add: sampleMember_def sampleAccess_def Node.truncate_def)

text \<open>
  C9. When the list of signatures does not have exactly one element, resolving a
  callable member of the Math object ends in the failed assertion, which is no
  diagnostic, whatever the member; with exactly one signature the call either returns
  a reference or raises the diagnostic of code 100000, and never a failed assertion.
\<close>

theorem createFunctionFor_single_signature:
  "(length signatures \<noteq> 1 \<longrightarrow>
      createFunctionFor api this memberSymbol signatures propertyAccessExpression context =
        Inl (AssertionError ''Math functions have not to be overloaded'')
      \<and> (\<forall>d. createFunctionFor api this memberSymbol signatures propertyAccessExpression context
             \<noteq> Inl (Thrown d)))
   \<and> (length signatures = 1 \<longrightarrow>
        (\<forall>reason. createFunctionFor api this memberSymbol signatures propertyAccessExpression context
           \<noteq> Inl (AssertionError reason))
        \<and> ((\<exists>r. createFunctionFor api this memberSymbol signatures propertyAccessExpression context
              = Inr r)
           \<or> (\<exists>d. createFunctionFor api this memberSymbol signatures propertyAccessExpression context
              = Inl (Thrown d) \<and> code d = 100000)))"
proof -
  have many: "createFunctionFor api this memberSymbol signatures propertyAccessExpression context =
      Inl (AssertionError ''Math functions have not to be overloaded'')
      \<and> (\<forall>d. createFunctionFor api this memberSymbol signatures propertyAccessExpression context
             \<noteq> Inl (Thrown d))"
    if "length signatures \<noteq> 1"
    using that by (simp add: createFunctionFor_def)
  have single: "(\<forall>reason. createFunctionFor api this memberSymbol signatures
        propertyAccessExpression context \<noteq> Inl (AssertionError reason))
      \<and> ((\<exists>r. createFunctionFor api this memberSymbol signatures propertyAccessExpression context
            = Inr r)
         \<or> (\<exists>d. createFunctionFor api this memberSymbol signatures propertyAccessExpression context
            = Inl (Thrown d) \<and> code d = 100000))"
    if "length signatures = 1"
  proof -
    from that obtain signature where one: "signatures = [signature]"
      by (cases signatures) simp_all
    consider "symbolName memberSymbol = ''sin'' \<or> symbolName memberSymbol = ''cos'' \<or>
        symbolName memberSymbol = ''log''"
      | "symbolName memberSymbol = ''pow''" | "symbolName memberSymbol = ''sqrt''"
      | "symbolName memberSymbol \<notin> {''sin'', ''cos'', ''log'', ''pow'', ''sqrt''}"
      by blast
    then have "(\<exists>r. createFunctionFor api this memberSymbol signatures propertyAccessExpression
          context = Inr r)
        \<or> (\<exists>d. createFunctionFor api this memberSymbol signatures propertyAccessExpression
          context = Inl (Thrown d) \<and> code d = 100000)"
    proof cases
      case 1
      then show ?thesis unfolding one by (simp add: createFunctionFor_runtime)
    next
      case 2
      then show ?thesis unfolding one by (simp add: createFunctionFor_pow)
    next
      case 3
      then show ?thesis unfolding one by (simp add: createFunctionFor_sqrt)
    next
      case 4
      then show ?thesis unfolding one by (simp add: createFunctionFor_other)
    qed
    then show ?thesis by auto
  qed
  show ?thesis using many single by blast
qed

theorem createFunctionFor_single_signature_witness:
  "createFunctionFor sampleCollaborators sampleMath (sampleMember ''pow'') []
       sampleAccess sampleContext =
     Inl (AssertionError ''Math functions have not to be overloaded'')
   \<and> createFunctionFor sampleCollaborators sampleMath (sampleMember ''random'')
       [sampleSignature, sampleSignature] sampleAccess sampleContext =
     Inl (AssertionError ''Math functions have not to be overloaded'')
   \<and> createFunctionFor sampleCollaborators sampleMath (sampleMember ''random'') [sampleSignature]
       sampleAccess sampleContext \<noteq>
     Inl (AssertionError ''Math functions have not to be overloaded'')"
  using createFunctionFor_single_signature [of "[]" sampleCollaborators sampleMath
      "sampleMember ''pow''" sampleAccess sampleContext]
    createFunctionFor_single_signature [of "[sampleSignature, sampleSignature]"
      sampleCollaborators sampleMath "sampleMember ''random''" sampleAccess sampleContext]
    createFunctionFor_single_signature [of "[sampleSignature]" sampleCollaborators sampleMath
      "sampleMember ''random''" sampleAccess sampleContext]
  by simp

end
